theory Spec2Isabelle
  imports Main "HOL-Library.AList" "HOL-Library.Word"
begin

section \<open>Data model\<close>

text \<open>
  The two source files, \<^verbatim>\<open>src/merge-results.ts\<close> and \<^verbatim>\<open>src/unnamed/part_000\<close>,
  declare the same types and differ in \<^verbatim>\<open>mergeStandingsByDriver\<close> and in the
  formatter. Definitions taken from \<^verbatim>\<open>part_000\<close> carry the suffix \<open>_part000\<close>;
  functions whose text is the same in both files are embedded once.

  A JavaScript string is a sequence of UTF-16 code units and \<^verbatim>\<open>length\<close> counts
  them, so a string is a list of 16-bit words. A JavaScript \<^verbatim>\<open>number\<close> is
  modelled as an \<open>int\<close>: the standings carry integer points, on which the
  arithmetic of the code (\<^verbatim>\<open>+=\<close>, \<^verbatim>\<open>-\<close>, \<^verbatim>\<open>!==\<close>) is exact below \<open>2^53\<close>.

  The standings come from \<^verbatim>\<open>JSON.parse\<close>, whose result the code takes as a
  \<^verbatim>\<open>ClassData[]\<close> without a check. The parts of a standing on which the code
  computes (\<^verbatim>\<open>id\<close>, \<^verbatim>\<open>car\<close>, the five numeric fields, the array \<^verbatim>\<open>races\<close>, and
  \<^verbatim>\<open>carClass\<close> and \<^verbatim>\<open>standings\<close> of a class) have the declared types in the model.
  The parts it only copies, \<^verbatim>\<open>carNum\<close> and the elements of \<^verbatim>\<open>races\<close>, are the
  JSON values as they were parsed, of whatever shape: the code never reads them.
\<close>

type_synonym jsString = "16 word list"

definition asc :: "string \<Rightarrow> jsString" where
  "asc s = map of_char s"

text \<open>A parsed JSON value; an object is the list of its properties.\<close>

datatype json =
  JNull
| JBool bool
| JNum int
| JStr jsString
| JArr "json list"
| JObj "(jsString \<times> json) list"

fun getProp :: "json \<Rightarrow> jsString \<Rightarrow> json option" where
  "getProp (JObj properties) k = map_of properties k"
| "getProp v k = None"

fun numberOf :: "json option \<Rightarrow> int option" where
  "numberOf (Some (JNum n)) = Some n"
| "numberOf v = None"

fun booleanOf :: "json option \<Rightarrow> bool option" where
  "booleanOf (Some (JBool b)) = Some b"
| "booleanOf v = None"

fun nullableNumberOf :: "json option \<Rightarrow> int option option" where
  "nullableNumberOf (Some (JNum n)) = Some (Some n)"
| "nullableNumberOf (Some JNull) = Some None"
| "nullableNumberOf v = None"

record Race =
  position :: int
  pointsGiven :: int
  penaltyPoints :: "int option"
  pointsTotal :: int
  dnf :: bool
  dns :: bool

text \<open>
  The \<^verbatim>\<open>Race\<close> that a JSON value is, when it has the declared properties with
  the declared types.
\<close>

definition raceOf :: "json \<Rightarrow> Race option" where
  "raceOf v =
     (case numberOf (getProp v (asc ''position'')) of None \<Rightarrow> None | Some p \<Rightarrow>
      case numberOf (getProp v (asc ''pointsGiven'')) of None \<Rightarrow> None | Some g \<Rightarrow>
      case nullableNumberOf (getProp v (asc ''penaltyPoints'')) of None \<Rightarrow> None | Some n \<Rightarrow>
      case numberOf (getProp v (asc ''pointsTotal'')) of None \<Rightarrow> None | Some t \<Rightarrow>
      case booleanOf (getProp v (asc ''dnf'')) of None \<Rightarrow> None | Some f \<Rightarrow>
      case booleanOf (getProp v (asc ''dns'')) of None \<Rightarrow> None | Some s \<Rightarrow>
        Some \<lparr>position = p, pointsGiven = g, penaltyPoints = n, pointsTotal = t,
              dnf = f, dns = s\<rparr>)"

record Standing =
  position :: int
  id_driver :: jsString
  carNum :: json
  car :: jsString
  championshipPoints :: int
  championshipPenalties :: int
  championshipScore :: int
  pointsAdjustment :: int
  actualPoints :: int
  races :: "json list"

text \<open>
  \<^verbatim>\<open>MergedStanding\<close> has the fields of \<^verbatim>\<open>Standing\<close>, with the same names and types;
  TypeScript types are structural, so the two are one type. The field \<^verbatim>\<open>id\<close> is
  \<open>id_driver\<close> here.
\<close>

type_synonym MergedStanding = Standing

record ClassData =
  carClass :: jsString
  standings :: "Standing list"

type_synonym MergedClassData = ClassData

section \<open>Driver Merger\<close>

text \<open>
  \<^verbatim>\<open>driverMap\<close> is a JavaScript \<^verbatim>\<open>Map\<close>, which iterates in insertion order: an
  association list, where \<open>AList.update\<close> replaces the value of a key that is
  present at its place and appends a key that is absent, as \<^verbatim>\<open>Map.set\<close> does.
  \<^verbatim>\<open>existing\<close> is the object stored in the map, so the assignments to its fields
  change the stored value at its place.
\<close>

type_synonym driverMap = "(jsString \<times> MergedStanding) list"

definition mergeBody :: "driverMap \<Rightarrow> Standing \<Rightarrow> driverMap" where
  "mergeBody driverMap standing =
     (case map_of driverMap (id_driver standing) of
        Some existing \<Rightarrow>
          AList.update (id_driver standing)
            (existing\<lparr>
               championshipPoints := championshipPoints existing + championshipPoints standing,
               championshipPenalties := championshipPenalties existing + championshipPenalties standing,
               championshipScore := championshipScore existing + championshipScore standing,
               pointsAdjustment := pointsAdjustment existing + pointsAdjustment standing,
               actualPoints := actualPoints existing + actualPoints standing,
               races := races existing @ races standing\<rparr>)
            driverMap
      | None \<Rightarrow>
          AList.update (id_driver standing)
            \<lparr>position = 0,
             id_driver = id_driver standing,
             carNum = carNum standing,
             car = car standing,
             championshipPoints = championshipPoints standing,
             championshipPenalties = championshipPenalties standing,
             championshipScore = championshipScore standing,
             pointsAdjustment = pointsAdjustment standing,
             actualPoints = actualPoints standing,
             races = races standing\<rparr>
            driverMap)"

definition mergeStandingsByDriver :: "Standing list \<Rightarrow> MergedStanding list" where
  "mergeStandingsByDriver sts = map snd (foldl mergeBody [] sts)"

definition mergeBody_part000 :: "driverMap \<Rightarrow> Standing \<Rightarrow> driverMap" where
  "mergeBody_part000 driverMap standing =
     (case map_of driverMap (id_driver standing) of
        Some existing \<Rightarrow>
          AList.update (id_driver standing)
            (existing\<lparr>
               championshipPoints := championshipPoints existing + championshipPoints standing,
               championshipScore := championshipScore existing + championshipScore standing,
               actualPoints := actualPoints existing + actualPoints standing,
               races := races existing @ races standing\<rparr>)
            driverMap
      | None \<Rightarrow>
          AList.update (id_driver standing)
            \<lparr>position = 0,
             id_driver = id_driver standing,
             carNum = carNum standing,
             car = car standing,
             championshipPoints = championshipPoints standing,
             championshipPenalties = championshipPenalties standing,
             championshipScore = championshipScore standing,
             pointsAdjustment = pointsAdjustment standing,
             actualPoints = actualPoints standing,
             races = races standing\<rparr>
            driverMap)"

definition mergeStandingsByDriver_part000 :: "Standing list \<Rightarrow> MergedStanding list" where
  "mergeStandingsByDriver_part000 sts = map snd (foldl mergeBody_part000 [] sts)"

section \<open>Ranker\<close>

text \<open>
  \<^verbatim>\<open>Array.prototype.sort\<close> with a comparison function: the language standard
  (ECMAScript 2019 and later) requires a stable sort, which puts \<open>a\<close> before \<open>b\<close>
  when the comparison of \<open>a\<close> with \<open>b\<close> is negative and keeps the order of the
  array when it is zero. For a consistent comparison function the result is
  determined by these two rules; a stable insertion sort computes it.
\<close>

fun insertBy :: "('a \<Rightarrow> 'a \<Rightarrow> int) \<Rightarrow> 'a \<Rightarrow> 'a list \<Rightarrow> 'a list" where
  "insertBy cmp x [] = [x]"
| "insertBy cmp x (y # ys) =
     (if cmp x y \<le> 0 then x # y # ys else y # insertBy cmp x ys)"

definition sortJS :: "('a \<Rightarrow> 'a \<Rightarrow> int) \<Rightarrow> 'a list \<Rightarrow> 'a list" where
  "sortJS cmp xs = foldr (insertBy cmp) xs []"

definition compareStandings :: "MergedStanding \<Rightarrow> MergedStanding \<Rightarrow> int" where
  "compareStandings a b =
     (if championshipPoints b \<noteq> championshipPoints a
      then championshipPoints b - championshipPoints a
      else championshipScore b - championshipScore a)"

definition sortStandingsByPoints :: "MergedStanding list \<Rightarrow> MergedStanding list" where
  "sortStandingsByPoints sts = sortJS compareStandings sts"

definition assignPositions :: "MergedStanding list \<Rightarrow> MergedStanding list" where
  "assignPositions sts =
     map (\<lambda>(index, standing). standing\<lparr>position := int index + 1\<rparr>) (enumerate 0 sts)"

text \<open>
  The three calls made for each class in \<^verbatim>\<open>mergeAndSortResults\<close>, in each file.
\<close>

definition rankClass :: "Standing list \<Rightarrow> MergedStanding list" where
  "rankClass sts = assignPositions (sortStandingsByPoints (mergeStandingsByDriver sts))"

definition rankClass_part000 :: "Standing list \<Rightarrow> MergedStanding list" where
  "rankClass_part000 sts =
     assignPositions (sortStandingsByPoints (mergeStandingsByDriver_part000 sts))"

section \<open>Report Formatter\<close>

subsection \<open>String operations of the language\<close>

definition space :: "16 word" where
  "space = 0x20"

definition newline :: jsString where
  "newline = [0x0A]"

definition padStart :: "jsString \<Rightarrow> nat \<Rightarrow> jsString" where
  "padStart s n = replicate (n - length s) space @ s"

definition padEnd :: "jsString \<Rightarrow> nat \<Rightarrow> jsString" where
  "padEnd s n = s @ replicate (n - length s) space"

text \<open>
  \<^verbatim>\<open>trim\<close> removes the code units that the language calls white space or line
  terminators from both ends.
\<close>

definition isWhiteSpace :: "16 word \<Rightarrow> bool" where
  "isWhiteSpace c \<longleftrightarrow>
     c \<in> set [0x09, 0x0A, 0x0B, 0x0C, 0x0D, 0x20, 0xA0, 0x1680,
               0x2000, 0x2001, 0x2002, 0x2003, 0x2004, 0x2005, 0x2006, 0x2007,
               0x2008, 0x2009, 0x200A, 0x2028, 0x2029, 0x202F, 0x205F, 0x3000, 0xFEFF]"

definition trim :: "jsString \<Rightarrow> jsString" where
  "trim s = rev (dropWhile isWhiteSpace (rev (dropWhile isWhiteSpace s)))"

text \<open>
  The decimal digits of a number. \<^verbatim>\<open>toFixed(0)\<close> of an integer (of absolute value
  below \<open>10^21\<close>) is its decimal representation, the one the template literal
  \<^verbatim>\<open>`${n}`\<close> gives too, and \<^verbatim>\<open>toFixed(1)\<close> adds \<^verbatim>\<open>.0\<close>.
\<close>

fun digitsOf :: "nat \<Rightarrow> jsString" where
  "digitsOf n =
     (if n < 10 then [of_nat (48 + n)] else digitsOf (n div 10) @ [of_nat (48 + n mod 10)])"

declare digitsOf.simps [simp del]

definition numberToString :: "int \<Rightarrow> jsString" where
  "numberToString n = (if n < 0 then asc ''-'' @ digitsOf (nat (- n)) else digitsOf (nat n))"

definition toFixed0 :: "int \<Rightarrow> jsString" where
  "toFixed0 n = numberToString n"

definition toFixed1 :: "int \<Rightarrow> jsString" where
  "toFixed1 n = numberToString n @ asc ''.0''"

fun joinLines :: "jsString \<Rightarrow> jsString list \<Rightarrow> jsString" where
  "joinLines sep [] = []"
| "joinLines sep [l] = l"
| "joinLines sep (l # m # ls) = l @ sep @ joinLines sep (m # ls)"

subsection \<open>The formatter of \<^verbatim>\<open>merge-results.ts\<close>\<close>

definition truncateText :: "jsString \<Rightarrow> nat \<Rightarrow> jsString" where
  "truncateText text maxLength =
     (if length text \<le> maxLength then text else take (maxLength - 1) text @ asc ''.'')"

definition POS_WIDTH :: nat where "POS_WIDTH = 4"
definition DRIVER_WIDTH :: nat where "DRIVER_WIDTH = 15"
definition CAR_WIDTH :: nat where "CAR_WIDTH = 13"
definition POINTS_WIDTH :: nat where "POINTS_WIDTH = 3"

text \<open>
  The constants \<^verbatim>\<open>pos\<close>, \<^verbatim>\<open>driver\<close>, \<^verbatim>\<open>car\<close> and \<^verbatim>\<open>points\<close> of the inner loop, and the
  line pushed for one standing.
\<close>

definition rowPos :: "MergedStanding \<Rightarrow> jsString" where
  "rowPos standing = padStart (numberToString (position standing) @ asc ''.'') POS_WIDTH"

definition rowDriver :: "MergedStanding \<Rightarrow> jsString" where
  "rowDriver standing =
     padEnd (truncateText (trim (id_driver standing)) DRIVER_WIDTH) DRIVER_WIDTH"

definition rowCar :: "MergedStanding \<Rightarrow> jsString" where
  "rowCar standing = padEnd (truncateText (trim (car standing)) CAR_WIDTH) CAR_WIDTH"

definition rowPoints :: "MergedStanding \<Rightarrow> jsString" where
  "rowPoints standing = padStart (toFixed0 (championshipPoints standing)) POINTS_WIDTH"

definition formatRow :: "MergedStanding \<Rightarrow> jsString" where
  "formatRow standing =
     rowPos standing @ asc '' '' @ rowDriver standing @ asc '' | '' @
     rowCar standing @ asc '' | '' @ rowPoints standing"

definition classLines :: "MergedClassData \<Rightarrow> jsString list" where
  "classLines classData =
     [asc ''**'' @ carClass classData @ asc ''**'', asc ''```''] @
     map formatRow (standings classData) @
     [asc ''```'' @ newline]"

definition formatResultsForDiscord :: "MergedClassData list \<Rightarrow> jsString" where
  "formatResultsForDiscord results =
     joinLines newline
       (([0xF0, 0x178] @ asc '' **Standings**'' @ newline) # concat (map classLines results))"

subsection \<open>The formatter of \<^verbatim>\<open>part_000\<close>\<close>

definition formatStandingPosition :: "int \<Rightarrow> jsString" where
  "formatStandingPosition pos = padStart (numberToString pos @ asc ''.'') 4"

definition truncateAndPad :: "jsString \<Rightarrow> nat \<Rightarrow> jsString" where
  "truncateAndPad text maxWidth =
     (if length text > maxWidth then take (maxWidth - 3) text @ asc ''...''
      else padEnd text maxWidth)"

definition POS_WIDTH_part000 :: nat where "POS_WIDTH_part000 = 4"
definition DRIVER_WIDTH_part000 :: nat where "DRIVER_WIDTH_part000 = 30"
definition CAR_WIDTH_part000 :: nat where "CAR_WIDTH_part000 = 25"
definition POINTS_WIDTH_part000 :: nat where "POINTS_WIDTH_part000 = 6"

definition headerRow_part000 :: jsString where
  "headerRow_part000 =
     truncateAndPad (asc ''Pos'') POS_WIDTH_part000 @ asc '' | '' @
     truncateAndPad (asc ''Driver'') DRIVER_WIDTH_part000 @ asc '' | '' @
     truncateAndPad (asc ''Car'') CAR_WIDTH_part000 @ asc '' | '' @
     truncateAndPad (asc ''Points'') POINTS_WIDTH_part000"

definition rulerRow_part000 :: jsString where
  "rulerRow_part000 =
     replicate POS_WIDTH_part000 (of_char CHR ''-'') @ asc '' | '' @
     replicate DRIVER_WIDTH_part000 (of_char CHR ''-'') @ asc '' | '' @
     replicate CAR_WIDTH_part000 (of_char CHR ''-'') @ asc '' | '' @
     replicate POINTS_WIDTH_part000 (of_char CHR ''-'')"

text \<open>
  The constants \<^verbatim>\<open>position\<close>, \<^verbatim>\<open>driver\<close>, \<^verbatim>\<open>car\<close> and \<^verbatim>\<open>points\<close> of the inner loop, and
  the line pushed for one standing.
\<close>

definition rowPos_part000 :: "MergedStanding \<Rightarrow> jsString" where
  "rowPos_part000 standing = formatStandingPosition (position standing)"

definition rowDriver_part000 :: "MergedStanding \<Rightarrow> jsString" where
  "rowDriver_part000 standing = truncateAndPad (trim (id_driver standing)) DRIVER_WIDTH_part000"

definition rowCar_part000 :: "MergedStanding \<Rightarrow> jsString" where
  "rowCar_part000 standing = truncateAndPad (trim (car standing)) CAR_WIDTH_part000"

definition rowPoints_part000 :: "MergedStanding \<Rightarrow> jsString" where
  "rowPoints_part000 standing =
     truncateAndPad (toFixed1 (championshipPoints standing)) POINTS_WIDTH_part000"

definition formatRow_part000 :: "MergedStanding \<Rightarrow> jsString" where
  "formatRow_part000 standing =
     rowPos_part000 standing @ asc '' | '' @ rowDriver_part000 standing @ asc '' | '' @
     rowCar_part000 standing @ asc '' | '' @ rowPoints_part000 standing"

definition classLines_part000 :: "MergedClassData \<Rightarrow> jsString list" where
  "classLines_part000 classData =
     [asc ''## '' @ carClass classData @ newline, asc ''```'',
      headerRow_part000, rulerRow_part000] @
     map formatRow_part000 (standings classData) @
     [asc ''```'' @ newline]"

definition formatResultsForDiscord_part000 :: "MergedClassData list \<Rightarrow> jsString" where
  "formatResultsForDiscord_part000 results =
     joinLines newline
       ((asc ''# '' @ [0xD83C, 0xDFC1] @ asc '' Championship Standings'' @ newline) #
        concat (map classLines_part000 results))"

section \<open>Fragment Loader, Class Grouper and the run\<close>

text \<open>
  The intake directory is the list of its files, name and content, in the
  order \<^verbatim>\<open>readdir\<close> gives them. \<^verbatim>\<open>JSON.parse\<close> is a function of the language; it
  is the parameter \<open>parse\<close>, which gives the error thrown (by \<^verbatim>\<open>JSON.parse\<close>, or
  by spreading a value that is no array) or the \<^verbatim>\<open>ClassData[]\<close> read.
  An exception leaves the loop and the function, as \<open>Inl\<close>. The failures of
  \<^verbatim>\<open>readdir\<close> and \<^verbatim>\<open>readFile\<close> are not part of the model.
\<close>

definition endsWith :: "jsString \<Rightarrow> jsString \<Rightarrow> bool" where
  "endsWith s suffix \<longleftrightarrow>
     length suffix \<le> length s \<and> drop (length s - length suffix) s = suffix"

fun readLoop ::
  "(jsString \<Rightarrow> 'e + ClassData list) \<Rightarrow> ClassData list \<Rightarrow> (jsString \<times> jsString) list
     \<Rightarrow> 'e + ClassData list" where
  "readLoop parse allData [] = Inr allData"
| "readLoop parse allData (file # jsonFiles) =
     (case parse (snd file) of
        Inl e \<Rightarrow> Inl e
      | Inr data \<Rightarrow> readLoop parse (allData @ data) jsonFiles)"

definition readAllJsonFiles ::
  "(jsString \<Rightarrow> 'e + ClassData list) \<Rightarrow> (jsString \<times> jsString) list \<Rightarrow> 'e + ClassData list" where
  "readAllJsonFiles parse directory =
     readLoop parse [] (filter (\<lambda>file. endsWith (fst file) (asc ''.json'')) directory)"

type_synonym classMap = "(jsString \<times> Standing list) list"

definition groupBody :: "classMap \<Rightarrow> ClassData \<Rightarrow> classMap" where
  "groupBody classMap classData =
     (case map_of classMap (carClass classData) of
        Some existing \<Rightarrow>
          AList.update (carClass classData) (existing @ standings classData) classMap
      | None \<Rightarrow>
          AList.update (carClass classData) (standings classData) classMap)"

definition groupByClass :: "ClassData list \<Rightarrow> classMap" where
  "groupByClass allClassData = foldl groupBody [] allClassData"

text \<open>
  \<^verbatim>\<open>localeCompare\<close> depends on the locale of the host; it is a parameter, and
  no property below depends on the order of the classes. The value of a run is
  the error that reaches \<^verbatim>\<open>catch\<close>, after which nothing is written, or the message
  given to \<^verbatim>\<open>writeFile\<close>.
\<close>

definition mergeAndSortResults ::
  "(jsString \<Rightarrow> 'e + ClassData list) \<Rightarrow> (jsString \<Rightarrow> jsString \<Rightarrow> int)
     \<Rightarrow> (jsString \<times> jsString) list \<Rightarrow> 'e + jsString" where
  "mergeAndSortResults parse localeCompare directory =
     (case readAllJsonFiles parse directory of
        Inl e \<Rightarrow> Inl e
      | Inr allClassData \<Rightarrow>
          Inr (formatResultsForDiscord
                (sortJS (\<lambda>a b. localeCompare (carClass a) (carClass b))
                  (map (\<lambda>(c, sts). \<lparr>carClass = c, standings = rankClass sts\<rparr>)
                    (groupByClass allClassData)))))"

definition mergeAndSortResults_part000 ::
  "(jsString \<Rightarrow> 'e + ClassData list) \<Rightarrow> (jsString \<Rightarrow> jsString \<Rightarrow> int)
     \<Rightarrow> (jsString \<times> jsString) list \<Rightarrow> 'e + jsString" where
  "mergeAndSortResults_part000 parse localeCompare directory =
     (case readAllJsonFiles parse directory of
        Inl e \<Rightarrow> Inl e
      | Inr allClassData \<Rightarrow>
          Inr (formatResultsForDiscord_part000
                (sortJS (\<lambda>a b. localeCompare (carClass a) (carClass b))
                  (map (\<lambda>(c, sts). \<lparr>carClass = c, standings = rankClass_part000 sts\<rparr>)
                    (groupByClass allClassData)))))"

section \<open>Notions used to state the properties\<close>

text \<open>The merged record of a driver, and the ranking order on two entries.\<close>

definition lookupDriver :: "jsString \<Rightarrow> MergedStanding list \<Rightarrow> MergedStanding option" where
  "lookupDriver d ms = find (\<lambda>m. id_driver m = d) ms"

definition recordsOf :: "jsString \<Rightarrow> Standing list \<Rightarrow> Standing list" where
  "recordsOf d sts = filter (\<lambda>s. id_driver s = d) sts"

definition ranksAbove :: "MergedStanding \<Rightarrow> MergedStanding \<Rightarrow> bool" where
  "ranksAbove a b \<longleftrightarrow>
     championshipPoints a > championshipPoints b \<or>
     (championshipPoints a = championshipPoints b \<and> championshipScore a > championshipScore b)"

definition tied :: "MergedStanding \<Rightarrow> MergedStanding \<Rightarrow> bool" where
  "tied a b \<longleftrightarrow>
     championshipPoints a = championshipPoints b \<and> championshipScore a = championshipScore b"

text \<open>
  The standings the fragments report for a class, the records of a driver among
  them, and the merged record of a driver in a class, for each file.
\<close>

definition classStandings :: "jsString \<Rightarrow> ClassData list \<Rightarrow> Standing list" where
  "classStandings c allClassData =
     concat (map standings (filter (\<lambda>classData. carClass classData = c) allClassData))"

definition contributions :: "jsString \<Rightarrow> jsString \<Rightarrow> ClassData list \<Rightarrow> Standing list" where
  "contributions c d allClassData = recordsOf d (classStandings c allClassData)"

definition mergedRecord :: "jsString \<Rightarrow> jsString \<Rightarrow> ClassData list \<Rightarrow> MergedStanding option" where
  "mergedRecord c d allClassData =
     (case map_of (groupByClass allClassData) c of
        None \<Rightarrow> None
      | Some sts \<Rightarrow> lookupDriver d (mergeStandingsByDriver sts))"

definition mergedRecord_part000 ::
  "jsString \<Rightarrow> jsString \<Rightarrow> ClassData list \<Rightarrow> MergedStanding option" where
  "mergedRecord_part000 c d allClassData =
     (case map_of (groupByClass allClassData) c of
        None \<Rightarrow> None
      | Some sts \<Rightarrow> lookupDriver d (mergeStandingsByDriver_part000 sts))"

text \<open>
  The shape the types declare, for the parts the model leaves as JSON values:
  \<^verbatim>\<open>carNum\<close> is a number and every element of \<^verbatim>\<open>races\<close> is a \<^verbatim>\<open>Race\<close>. A content
  deserializes into the expected shape when it is parsed and the value parsed
  has that shape.
\<close>

definition standingShape :: "Standing \<Rightarrow> bool" where
  "standingShape s \<longleftrightarrow>
     numberOf (Some (carNum s)) \<noteq> None \<and> list_all (\<lambda>r. raceOf r \<noteq> None) (races s)"

definition expectedShape :: "ClassData list \<Rightarrow> bool" where
  "expectedShape allClassData \<longleftrightarrow>
     list_all (\<lambda>classData. list_all standingShape (standings classData)) allClassData"

definition deserializes :: "(jsString \<Rightarrow> 'e + ClassData list) \<Rightarrow> jsString \<Rightarrow> bool" where
  "deserializes parse content \<longleftrightarrow>
     (case parse content of Inl e \<Rightarrow> False | Inr data \<Rightarrow> expectedShape data)"

text \<open>The index of the first occurrence of a key in a list (its length if there is none).\<close>

fun firstIndex :: "'a \<Rightarrow> 'a list \<Rightarrow> nat" where
  "firstIndex k [] = 0"
| "firstIndex k (x # xs) = (if x = k then 0 else Suc (firstIndex k xs))"

text \<open>
  The two branches of the loop body of \<^verbatim>\<open>mergeStandingsByDriver\<close>: the object
  stored at the first occurrence of a driver (the same in both files), and the
  stored object after the assignments made at a later occurrence (one per file).
\<close>

definition seedOf :: "Standing \<Rightarrow> MergedStanding" where
  "seedOf standing =
     \<lparr>position = 0,
      id_driver = id_driver standing,
      carNum = carNum standing,
      car = car standing,
      championshipPoints = championshipPoints standing,
      championshipPenalties = championshipPenalties standing,
      championshipScore = championshipScore standing,
      pointsAdjustment = pointsAdjustment standing,
      actualPoints = actualPoints standing,
      races = races standing\<rparr>"

definition foldInto :: "MergedStanding \<Rightarrow> Standing \<Rightarrow> MergedStanding" where
  "foldInto existing standing =
     existing\<lparr>
       championshipPoints := championshipPoints existing + championshipPoints standing,
       championshipPenalties := championshipPenalties existing + championshipPenalties standing,
       championshipScore := championshipScore existing + championshipScore standing,
       pointsAdjustment := pointsAdjustment existing + pointsAdjustment standing,
       actualPoints := actualPoints existing + actualPoints standing,
       races := races existing @ races standing\<rparr>"

definition foldInto_part000 :: "MergedStanding \<Rightarrow> Standing \<Rightarrow> MergedStanding" where
  "foldInto_part000 existing standing =
     existing\<lparr>
       championshipPoints := championshipPoints existing + championshipPoints standing,
       championshipScore := championshipScore existing + championshipScore standing,
       actualPoints := actualPoints existing + actualPoints standing,
       races := races existing @ races standing\<rparr>"

section \<open>Example inputs\<close>

text \<open>
  The scenario of the specification: class GT3, Alice in two fragments and Bob
  in the second.
\<close>

definition R1 :: json where
  "R1 = JObj [(asc ''position'', JNum 1), (asc ''pointsGiven'', JNum 10),
              (asc ''penaltyPoints'', JNull), (asc ''pointsTotal'', JNum 10),
              (asc ''dnf'', JBool False), (asc ''dns'', JBool False)]"

definition R2 :: json where
  "R2 = JObj [(asc ''position'', JNum 2), (asc ''pointsGiven'', JNum 8),
              (asc ''penaltyPoints'', JNum 1), (asc ''pointsTotal'', JNum 7),
              (asc ''dnf'', JBool False), (asc ''dns'', JBool False)]"

definition R3 :: json where
  "R3 = JObj [(asc ''position'', JNum 1), (asc ''pointsGiven'', JNum 9),
              (asc ''penaltyPoints'', JNull), (asc ''pointsTotal'', JNum 9),
              (asc ''dnf'', JBool False), (asc ''dns'', JBool False)]"

definition alice1 :: Standing where
  "alice1 = \<lparr>position = 1, id_driver = asc ''Alice'', carNum = JNum 7, car = asc ''Porsche'',
     championshipPoints = 10, championshipPenalties = 1, championshipScore = 5,
     pointsAdjustment = 2, actualPoints = 10, races = [R1]\<rparr>"

definition alice2 :: Standing where
  "alice2 = \<lparr>position = 2, id_driver = asc ''Alice'', carNum = JNum 7, car = asc ''Porsche'',
     championshipPoints = 8, championshipPenalties = 2, championshipScore = 3,
     pointsAdjustment = 1, actualPoints = 8, races = [R2]\<rparr>"

definition bob :: Standing where
  "bob = \<lparr>position = 1, id_driver = asc ''Bob'', carNum = JNum 12, car = asc ''Ferrari'',
     championshipPoints = 9, championshipPenalties = 0, championshipScore = 9,
     pointsAdjustment = 0, actualPoints = 9, races = [R3]\<rparr>"

text \<open>Two drivers whose merged records are tied on both keys.\<close>

definition dave1 :: Standing where
  "dave1 = \<lparr>position = 3, id_driver = asc ''Dave'', carNum = JNum 4, car = asc ''BMW'',
     championshipPoints = 4, championshipPenalties = 0, championshipScore = 2,
     pointsAdjustment = 0, actualPoints = 4, races = [R2]\<rparr>"

definition carol :: Standing where
  "carol = \<lparr>position = 1, id_driver = asc ''Carol'', carNum = JNum 5, car = asc ''Audi'',
     championshipPoints = 9, championshipPenalties = 0, championshipScore = 5,
     pointsAdjustment = 0, actualPoints = 9, races = [R1]\<rparr>"

definition dave2 :: Standing where
  "dave2 = \<lparr>position = 2, id_driver = asc ''Dave'', carNum = JNum 4, car = asc ''BMW'',
     championshipPoints = 5, championshipPenalties = 0, championshipScore = 3,
     pointsAdjustment = 0, actualPoints = 5, races = [R3]\<rparr>"

text \<open>
  A fragment that is valid JSON of another shape than the types declare: its
  \<^verbatim>\<open>carNum\<close> is a string and its race has the property \<^verbatim>\<open>position\<close> only.
  \<open>eve\<close> is the standing that \<^verbatim>\<open>JSON.parse\<close> returns for it.
\<close>

definition wrongShapeContent :: jsString where
  \<open>wrongShapeContent = asc
     ''[{"carClass":"GT3","standings":[{"position":1,"id":"Eve","carNum":"7","car":"Lotus","championshipPoints":12,"championshipPenalties":0,"championshipScore":6,"pointsAdjustment":0,"actualPoints":12,"races":[{"position":1}]}]}]''\<close>

definition eve :: Standing where
  "eve = \<lparr>position = 1, id_driver = asc ''Eve'', carNum = JStr (asc ''7''), car = asc ''Lotus'',
     championshipPoints = 12, championshipPenalties = 0, championshipScore = 6,
     pointsAdjustment = 0, actualPoints = 12, races = [JObj [(asc ''position'', JNum 1)]]\<rparr>"

text \<open>
  A deserializer for the examples: it gives what \<^verbatim>\<open>JSON.parse\<close> returns for the
  content above, stands for it on three contents named by a label, and rejects
  every other content. A comparison of class names for the examples.
\<close>

definition exampleParse :: "jsString \<Rightarrow> unit + ClassData list" where
  "exampleParse content =
     (if content = asc ''fragment 1'' then Inr [\<lparr>carClass = asc ''GT3'', standings = [alice1]\<rparr>]
      else if content = asc ''fragment 2''
        then Inr [\<lparr>carClass = asc ''GT3'', standings = [alice2, bob]\<rparr>]
      else if content = asc ''one fragment''
        then Inr [\<lparr>carClass = asc ''GT3'', standings = [alice1, alice2, bob]\<rparr>]
      else if content = wrongShapeContent
        then Inr [\<lparr>carClass = asc ''GT3'', standings = [eve]\<rparr>]
      else Inl ())"




definition twoFragments :: "(jsString \<times> jsString) list" where
  "twoFragments = [(asc ''a.json'', asc ''fragment 1''), (asc ''c.json'', asc ''fragment 2'')]"

definition oneFragment :: "(jsString \<times> jsString) list" where
  "oneFragment = [(asc ''all.json'', asc ''one fragment'')]"

section \<open>Properties of the sort\<close>

lemma set_insertBy: "set (insertBy cmp x ys) = insert x (set ys)"
  by (induction ys) auto

lemma set_sortJS: "set (sortJS cmp xs) = set xs"
  by (induction xs) (simp_all add: sortJS_def set_insertBy)

lemma sortJS_Cons: "sortJS cmp (x # xs) = insertBy cmp x (sortJS cmp xs)"
  by (simp add: sortJS_def)

text \<open>The sort returns a permutation of its input.\<close>

lemma length_insertBy: "length (insertBy cmp x ys) = Suc (length ys)"
  by (induction ys) auto

lemma length_sortJS: "length (sortJS cmp xs) = length xs"
  by (induction xs) (simp_all add: sortJS_def length_insertBy)

lemma count_insertBy: "count_list (insertBy cmp x ys) a = count_list (x # ys) a"
  by (induction ys) auto

lemma count_sortJS: "count_list (sortJS cmp xs) a = count_list xs a"
  by (induction xs) (simp_all add: sortJS_def count_insertBy)

text \<open>
  For a comparison function that is transitive and antisymmetric in sign, the
  result is ordered, and elements that compare equal keep the order they had.
\<close>

lemma sorted_insertBy:
  assumes tr: "\<And>a b c. cmp a b \<le> 0 \<Longrightarrow> cmp b c \<le> 0 \<Longrightarrow> cmp a c \<le> 0"
    and anti: "\<And>a b. cmp a b > 0 \<Longrightarrow> cmp b a < 0"
  shows "sorted_wrt (\<lambda>a b. cmp a b < 0 \<or> cmp a b = 0 \<and> before a b) ys \<Longrightarrow>
         \<forall>z\<in>set ys. before x z \<Longrightarrow>
         sorted_wrt (\<lambda>a b. cmp a b < 0 \<or> cmp a b = 0 \<and> before a b) (insertBy cmp x ys)"
proof (induction ys)
  case Nil
  then show ?case by simp
next
  case (Cons y ys)
  show ?case
  proof (cases "cmp x y \<le> 0")
    case True
    have "cmp x z \<le> 0" if "z \<in> set ys" for z
    proof -
      from Cons.prems(1) that have "cmp y z \<le> 0" by auto
      with True show ?thesis by (rule tr)
    qed
    with True Cons.prems show ?thesis by (auto simp: less_le)
  next
    case False
    then have "cmp y x < 0" using anti [of x y] by simp
    moreover have "sorted_wrt (\<lambda>a b. cmp a b < 0 \<or> cmp a b = 0 \<and> before a b) (insertBy cmp x ys)"
      using Cons by simp
    ultimately show ?thesis using False Cons.prems by (auto simp: set_insertBy)
  qed
qed

lemma sorted_sortJS_stable:
  assumes tr: "\<And>a b c. cmp a b \<le> 0 \<Longrightarrow> cmp b c \<le> 0 \<Longrightarrow> cmp a c \<le> 0"
    and anti: "\<And>a b. cmp a b > 0 \<Longrightarrow> cmp b a < 0"
  shows "sorted_wrt before xs \<Longrightarrow>
         sorted_wrt (\<lambda>a b. cmp a b < 0 \<or> cmp a b = 0 \<and> before a b) (sortJS cmp xs)"
proof (induction xs)
  case Nil
  then show ?case by (simp add: sortJS_def)
next
  case (Cons x xs)
  then have a: "sorted_wrt (\<lambda>a b. cmp a b < 0 \<or> cmp a b = 0 \<and> before a b) (sortJS cmp xs)"
    and b: "\<forall>z\<in>set (sortJS cmp xs). before x z"
    by (simp_all add: set_sortJS)
  show ?case
    unfolding sortJS_Cons
  proof (rule sorted_insertBy)
    show "cmp a c \<le> 0" if "cmp a b \<le> 0" "cmp b c \<le> 0" for a b c
      using that by (rule tr)
    show "cmp b a < 0" if "cmp a b > 0" for a b
      using that by (rule anti)
  qed (rule a, rule b)
qed

lemma compareStandings_neg: "compareStandings a b < 0 \<longleftrightarrow> ranksAbove a b"
  by (auto simp: compareStandings_def ranksAbove_def)

lemma compareStandings_zero: "compareStandings a b = 0 \<longleftrightarrow> tied a b"
  by (auto simp: compareStandings_def tied_def)

lemma compareStandings_trans:
  "compareStandings a b \<le> 0 \<Longrightarrow> compareStandings b c \<le> 0 \<Longrightarrow> compareStandings a c \<le> 0"
  by (auto simp: compareStandings_def split: if_splits)

lemma compareStandings_anti: "compareStandings a b > 0 \<Longrightarrow> compareStandings b a < 0"
  by (auto simp: compareStandings_def split: if_splits)

lemma sorted_sortStandingsByPoints:
  "sorted_wrt before ms \<Longrightarrow>
   sorted_wrt (\<lambda>a b. ranksAbove a b \<or> tied a b \<and> before a b) (sortStandingsByPoints ms)"
  unfolding sortStandingsByPoints_def compareStandings_neg [symmetric] compareStandings_zero [symmetric]
  by (rule sorted_sortJS_stable [OF compareStandings_trans compareStandings_anti])

lemma ranksAbove_asym: "ranksAbove a b \<Longrightarrow> \<not> ranksAbove b a"
  by (auto simp: ranksAbove_def)

lemma ranksAbove_not_tied: "ranksAbove a b \<Longrightarrow> \<not> tied a b"
  by (auto simp: ranksAbove_def tied_def)

lemma tied_sym: "tied a b \<Longrightarrow> tied b a"
  by (auto simp: tied_def)

lemma length_assignPositions: "length (assignPositions ms) = length ms"
  by (simp add: assignPositions_def)

lemma nth_assignPositions:
  "i < length ms \<Longrightarrow> assignPositions ms ! i = (ms ! i)\<lparr>position := int i + 1\<rparr>"
  by (simp add: assignPositions_def nth_enumerate_eq)

lemma ranksAbove_position [simp]: "ranksAbove (a\<lparr>position := p\<rparr>) (b\<lparr>position := q\<rparr>) = ranksAbove a b"
  by (simp add: ranksAbove_def)

lemma tied_position [simp]: "tied (a\<lparr>position := p\<rparr>) (b\<lparr>position := q\<rparr>) = tied a b"
  by (simp add: tied_def)

lemma sorted_any: "sorted_wrt (\<lambda>a b. ranksAbove a b \<or> tied a b) (sortStandingsByPoints ms)"
proof -
  have "sorted_wrt (\<lambda>a b. True) ms" by (induction ms) auto
  from sorted_sortStandingsByPoints [of "\<lambda>a b. True", OF this] show ?thesis by simp
qed

section \<open>Properties of a map filled by a loop\<close>

text \<open>
  \<^verbatim>\<open>driverMap\<close> and \<^verbatim>\<open>classMap\<close> are filled the same way: each element of the
  input updates the entry of its key. The lemmas are stated for any such loop.
\<close>

lemma firstIndex_less: "a \<in> set xs \<Longrightarrow> firstIndex a xs < length xs"
  by (induction xs) auto

lemma firstIndex_append_in: "a \<in> set xs \<Longrightarrow> firstIndex a (xs @ ys) = firstIndex a xs"
  by (induction xs) auto

lemma firstIndex_append_notin: "a \<notin> set xs \<Longrightarrow> firstIndex a (xs @ ys) = length xs + firstIndex a ys"
  by (induction xs) auto

lemma loop_keys_step:
  assumes U: "\<And>acc s. step acc s = AList.update (key s) (val acc s) acc"
  shows "map fst (step acc s) = (if key s \<in> set (map fst acc) then map fst acc else map fst acc @ [key s])"
  by (simp only: U update_keys)

lemma loop_keys_set:
  assumes U: "\<And>acc s. step acc s = AList.update (key s) (val acc s) acc"
  shows "set (map fst (foldl step acc xs)) = set (map fst acc) \<union> key ` set xs"
proof (induction xs arbitrary: acc)
  case Nil
  then show ?case by simp
next
  case (Cons x xs)
  have "set (map fst (step acc x)) = insert (key x) (set (map fst acc))"
    by (auto simp: loop_keys_step [of step key val, OF U])
  with Cons [of "step acc x"] show ?case by auto
qed

lemma loop_keys_distinct:
  assumes U: "\<And>acc s. step acc s = AList.update (key s) (val acc s) acc"
  shows "distinct (map fst acc) \<Longrightarrow> distinct (map fst (foldl step acc xs))"
proof (induction xs arbitrary: acc)
  case Nil
  then show ?case by simp
next
  case (Cons x xs)
  from Cons.prems have "distinct (map fst (step acc x))"
    by (simp only: U distinct_update)
  then show ?case using Cons.IH by simp
qed

lemma loop_keys_order:
  assumes U: "\<And>acc s. step acc s = AList.update (key s) (val acc s) acc"
  shows "sorted_wrt (\<lambda>a b. firstIndex a (map key xs) < firstIndex b (map key xs))
           (map fst (foldl step [] xs))"
proof (induction xs rule: rev_induct)
  case Nil
  then show ?case by simp
next
  case (snoc x xs)
  let ?ks = "map fst (foldl step [] xs)"
  have ks: "set ?ks = set (map key xs)"
    using loop_keys_set [of step key val "[]" xs, OF U] by simp
  have old: "sorted_wrt (\<lambda>a b. firstIndex a (map key (xs @ [x])) < firstIndex b (map key (xs @ [x]))) ?ks"
  proof (rule sorted_wrt_mono_rel [OF _ snoc.IH])
    fix a b
    assume "a \<in> set ?ks" "b \<in> set ?ks" "firstIndex a (map key xs) < firstIndex b (map key xs)"
    then show "firstIndex a (map key (xs @ [x])) < firstIndex b (map key (xs @ [x]))"
      by (simp add: ks firstIndex_append_in del: set_map)
  qed
  show ?case
  proof (cases "key x \<in> set ?ks")
    case True
    then show ?thesis using old by (simp add: loop_keys_step [of step key val, OF U])
  next
    case False
    then have "firstIndex a (map key (xs @ [x])) < firstIndex (key x) (map key (xs @ [x]))"
      if "a \<in> set ?ks" for a
      using that firstIndex_less [of a "map key xs"]
      by (simp add: ks firstIndex_append_in firstIndex_append_notin del: set_map)
    with False old show ?thesis
      by (simp add: loop_keys_step [of step key val, OF U] sorted_wrt_append)
  qed
qed

lemma loop_lookup:
  assumes U: "\<And>acc s. step acc s =
      AList.update (key s) (case map_of acc (key s) of Some e \<Rightarrow> add e s | None \<Rightarrow> seed s) acc"
  shows "map_of (foldl step acc xs) d =
    (case map_of acc d of
       Some e \<Rightarrow> Some (foldl add e (filter (\<lambda>s. key s = d) xs))
     | None \<Rightarrow> (case filter (\<lambda>s. key s = d) xs of
                   [] \<Rightarrow> None
                 | s # rest \<Rightarrow> Some (foldl add (seed s) rest)))"
proof (induction xs arbitrary: acc)
  case Nil
  then show ?case by (simp split: option.split)
next
  case (Cons x xs)
  have "map_of (step acc x) =
      (map_of acc)(key x \<mapsto> (case map_of acc (key x) of Some e \<Rightarrow> add e x | None \<Rightarrow> seed x))"
    by (simp only: U update_conv')
  then show ?case
    by (simp add: Cons.IH [of "step acc x"] split: option.split)
qed

lemma set_update_subset: "set (AList.update k v al) \<subseteq> insert (k, v) (set al)"
  by (induction al) auto

lemma loop_values_key:
  assumes U: "\<And>acc s. step acc s =
      AList.update (key s) (case map_of acc (key s) of Some e \<Rightarrow> add e s | None \<Rightarrow> seed s) acc"
    and A: "\<And>e s. key (add e s) = key e"
    and B: "\<And>s. key (seed s) = key s"
  shows "\<forall>(k, m)\<in>set acc. key m = k \<Longrightarrow> \<forall>(k, m)\<in>set (foldl step acc xs). key m = k"
proof (induction xs arbitrary: acc)
  case Nil
  then show ?case by simp
next
  case (Cons x xs)
  have "key (case map_of acc (key x) of Some e \<Rightarrow> add e x | None \<Rightarrow> seed x) = key x"
    using Cons.prems by (auto simp: A B split: option.split dest!: map_of_SomeD)
  with Cons.prems set_update_subset [of "key x" _ acc] have "\<forall>(k, m)\<in>set (step acc x). key m = k"
    unfolding U by fastforce
  then show ?case using Cons.IH by simp
qed

lemma find_values:
  "\<forall>(k, m)\<in>set al. key m = k \<Longrightarrow> find (\<lambda>m. key m = d) (map snd al) = map_of al d"
  by (induction al) auto

section \<open>Properties of the Driver Merger\<close>

lemma mergeBody_update:
  "mergeBody acc s =
     AList.update (id_driver s)
       (case map_of acc (id_driver s) of Some e \<Rightarrow> foldInto e s | None \<Rightarrow> seedOf s) acc"
  by (simp add: mergeBody_def foldInto_def seedOf_def split: option.split)

lemma mergeBody_part000_update:
  "mergeBody_part000 acc s =
     AList.update (id_driver s)
       (case map_of acc (id_driver s) of Some e \<Rightarrow> foldInto_part000 e s | None \<Rightarrow> seedOf s) acc"
  by (simp add: mergeBody_part000_def foldInto_part000_def seedOf_def split: option.split)

lemma id_driver_seedOf: "id_driver (seedOf s) = id_driver s"
  by (simp add: seedOf_def)

lemma id_driver_foldInto: "id_driver (foldInto e s) = id_driver e"
  by (simp add: foldInto_def)

lemma id_driver_foldInto_part000: "id_driver (foldInto_part000 e s) = id_driver e"
  by (simp add: foldInto_part000_def)

lemma driverMap_keys:
  "\<forall>(k, m)\<in>set (foldl mergeBody [] sts). id_driver m = k"
  by (rule loop_values_key [where step = mergeBody and key = id_driver and add = foldInto and seed = seedOf, OF mergeBody_update
        id_driver_foldInto id_driver_seedOf]) simp

lemma driverMap_part000_keys:
  "\<forall>(k, m)\<in>set (foldl mergeBody_part000 [] sts). id_driver m = k"
  by (rule loop_values_key [where step = mergeBody_part000 and key = id_driver and add = foldInto_part000
          and seed = seedOf, OF mergeBody_part000_update id_driver_foldInto_part000 id_driver_seedOf]) simp

lemma map_key_values:
  "\<forall>(k, m)\<in>set al. key m = k \<Longrightarrow> map key (map snd al) = map fst al"
  by (induction al) auto

lemma ids_merge:
  "map id_driver (mergeStandingsByDriver sts) = map fst (foldl mergeBody [] sts)"
  unfolding mergeStandingsByDriver_def by (rule map_key_values [OF driverMap_keys])

lemma ids_merge_part000:
  "map id_driver (mergeStandingsByDriver_part000 sts) = map fst (foldl mergeBody_part000 [] sts)"
  unfolding mergeStandingsByDriver_part000_def by (rule map_key_values [OF driverMap_part000_keys])

lemma lookup_merge:
  "lookupDriver d (mergeStandingsByDriver sts) =
     (case recordsOf d sts of [] \<Rightarrow> None | s # rest \<Rightarrow> Some (foldl foldInto (seedOf s) rest))"
  unfolding lookupDriver_def mergeStandingsByDriver_def recordsOf_def
  by (simp add: find_values [OF driverMap_keys]
      loop_lookup [where step = mergeBody and key = id_driver and add = foldInto and seed = seedOf, OF mergeBody_update])

lemma lookup_merge_part000:
  "lookupDriver d (mergeStandingsByDriver_part000 sts) =
     (case recordsOf d sts of [] \<Rightarrow> None
      | s # rest \<Rightarrow> Some (foldl foldInto_part000 (seedOf s) rest))"
  unfolding lookupDriver_def mergeStandingsByDriver_part000_def recordsOf_def
  by (simp add: find_values [OF driverMap_part000_keys]
      loop_lookup [where step = mergeBody_part000 and key = id_driver and add = foldInto_part000
          and seed = seedOf, OF mergeBody_part000_update])

lemma distinct_ids_merge: "distinct (map id_driver (mergeStandingsByDriver sts))"
  unfolding ids_merge
  by (rule loop_keys_distinct [where step = mergeBody and key = id_driver, OF mergeBody_update]) simp

lemma distinct_ids_merge_part000: "distinct (map id_driver (mergeStandingsByDriver_part000 sts))"
  unfolding ids_merge_part000
  by (rule loop_keys_distinct [where step = mergeBody_part000 and key = id_driver, OF mergeBody_part000_update]) simp

lemma set_ids_merge: "set (map id_driver (mergeStandingsByDriver sts)) = id_driver ` set sts"
  unfolding ids_merge
  using loop_keys_set [where step = mergeBody and key = id_driver and acc = "[]" and xs = sts, OF mergeBody_update] by simp

lemma set_ids_merge_part000:
  "set (map id_driver (mergeStandingsByDriver_part000 sts)) = id_driver ` set sts"
  unfolding ids_merge_part000
  using loop_keys_set [where step = mergeBody_part000 and key = id_driver and acc = "[]" and xs = sts, OF mergeBody_part000_update] by simp

lemma order_merge:
  "sorted_wrt (\<lambda>a b. firstIndex (id_driver a) (map id_driver sts)
                     < firstIndex (id_driver b) (map id_driver sts))
     (mergeStandingsByDriver sts)"
  using loop_keys_order [where step = mergeBody and key = id_driver and xs = sts, OF mergeBody_update]
  by (simp add: ids_merge [symmetric] sorted_wrt_map)

lemma order_merge_part000:
  "sorted_wrt (\<lambda>a b. firstIndex (id_driver a) (map id_driver sts)
                     < firstIndex (id_driver b) (map id_driver sts))
     (mergeStandingsByDriver_part000 sts)"
  using loop_keys_order [where step = mergeBody_part000 and key = id_driver and xs = sts, OF mergeBody_part000_update]
  by (simp add: ids_merge_part000 [symmetric] sorted_wrt_map)

lemma distinct_map_insertBy:
  "distinct (map f (insertBy cmp x ys)) \<longleftrightarrow> f x \<notin> f ` set ys \<and> distinct (map f ys)"
  by (induction ys) (auto simp: set_insertBy)

lemma distinct_map_sortJS: "distinct (map f (sortJS cmp xs)) \<longleftrightarrow> distinct (map f xs)"
  by (induction xs) (simp_all add: sortJS_def distinct_map_insertBy set_sortJS [unfolded sortJS_def])

lemma ids_assignPositions: "map id_driver (assignPositions ms) = map id_driver ms"
  by (rule nth_equalityI) (simp_all add: length_assignPositions nth_assignPositions)

section \<open>Dense positions\<close>

lemma positions_assignPositions:
  "map position (assignPositions ms) = map (\<lambda>i. int i + 1) [0..<length ms]"
  by (rule nth_equalityI) (simp_all add: length_assignPositions nth_assignPositions)

lemma image_Suc_int: "(\<lambda>i. int i + 1) ` {0..<n} = {1..int n}"
proof (rule set_eqI)
  fix x :: int
  show "x \<in> (\<lambda>i. int i + 1) ` {0..<n} \<longleftrightarrow> x \<in> {1..int n}"
  proof
    assume "x \<in> (\<lambda>i. int i + 1) ` {0..<n}"
    then show "x \<in> {1..int n}" by auto
  next
    assume h: "x \<in> {1..int n}"
    then have "nat (x - 1) \<in> {0..<n}" and "x = int (nat (x - 1)) + 1" by auto
    then show "x \<in> (\<lambda>i. int i + 1) ` {0..<n}" by (rule rev_image_eqI)
  qed
qed

lemma set_positions: "set (map position (assignPositions ms)) = {1..int (length ms)}"
  by (simp add: positions_assignPositions image_Suc_int del: set_map) (simp add: image_Suc_int)

lemma distinct_positions: "distinct (map position (assignPositions ms))"
  by (simp add: positions_assignPositions distinct_map inj_on_def)

lemma dense_positions_any:
  "length (assignPositions (sortStandingsByPoints ms)) = length ms \<and>
   set (map position (assignPositions (sortStandingsByPoints ms))) = {1..int (length ms)} \<and>
   distinct (map position (assignPositions (sortStandingsByPoints ms))) \<and>
   (\<forall>i<length ms. assignPositions (sortStandingsByPoints ms) ! i =
      (sortStandingsByPoints ms ! i)\<lparr>position := int i + 1\<rparr>)"
  by (simp add: length_assignPositions set_positions distinct_positions nth_assignPositions
      sortStandingsByPoints_def length_sortJS del: set_map)

text \<open>
  C7. A class whose merged standings have \<open>K\<close> drivers is ranked into \<open>K\<close>
  entries whose positions are exactly the numbers \<open>1, ..., K\<close>, each used once,
  the entry at index \<open>i\<close> of the sorted list getting position \<open>i + 1\<close>. This holds
  with the merger of either file.
\<close>

theorem dense_positions:
  "(length (rankClass sts) = length (mergeStandingsByDriver sts) \<and>
    set (map position (rankClass sts)) = {1..int (length (mergeStandingsByDriver sts))} \<and>
    distinct (map position (rankClass sts)) \<and>
    (\<forall>i<length (mergeStandingsByDriver sts). rankClass sts ! i =
       (sortStandingsByPoints (mergeStandingsByDriver sts) ! i)\<lparr>position := int i + 1\<rparr>)) \<and>
   (length (rankClass_part000 sts) = length (mergeStandingsByDriver_part000 sts) \<and>
    set (map position (rankClass_part000 sts)) =
      {1..int (length (mergeStandingsByDriver_part000 sts))} \<and>
    distinct (map position (rankClass_part000 sts)) \<and>
    (\<forall>i<length (mergeStandingsByDriver_part000 sts). rankClass_part000 sts ! i =
       (sortStandingsByPoints (mergeStandingsByDriver_part000 sts) ! i)\<lparr>position := int i + 1\<rparr>))"
  unfolding rankClass_def rankClass_part000_def
  using dense_positions_any [of "mergeStandingsByDriver sts"]
    dense_positions_any [of "mergeStandingsByDriver_part000 sts"]
  by blast

theorem dense_positions_witness:
  "(1::nat) < length (mergeStandingsByDriver [alice1, alice2, bob]) \<and>
   (1::nat) < length (mergeStandingsByDriver_part000 [alice1, alice2, bob]) \<and>
   set (map position (rankClass [alice1, alice2, bob])) = {1..2} \<and>
   position (rankClass [alice1, alice2, bob] ! 1) = 2 \<and>
   position (rankClass_part000 [alice1, alice2, bob] ! 1) = 2"
proof -
  have k: "length (mergeStandingsByDriver [alice1, alice2, bob]) = 2"
    by code_simp
  have k': "length (mergeStandingsByDriver_part000 [alice1, alice2, bob]) = 2"
    by code_simp
  show ?thesis
    using dense_positions [of "[alice1, alice2, bob]"] by (simp add: k k')
qed

section \<open>Sort correctness\<close>

text \<open>
  C3. In a ranked class (the sorted list with its positions assigned, whatever
  list of merged standings is ranked), for two entries that are not tied on
  both keys, the entry at index \<open>i\<close> comes before the entry at index \<open>j\<close> if and only
  if it has more championship points, or the same points and a greater
  championship score.
\<close>

theorem sort_correct:
  assumes "i < length (assignPositions (sortStandingsByPoints ms))"
    and "j < length (assignPositions (sortStandingsByPoints ms))"
    and "\<not> tied (assignPositions (sortStandingsByPoints ms) ! i)
                (assignPositions (sortStandingsByPoints ms) ! j)"
  shows "i < j \<longleftrightarrow> ranksAbove (assignPositions (sortStandingsByPoints ms) ! i)
                              (assignPositions (sortStandingsByPoints ms) ! j)"
proof -
  let ?s = "sortStandingsByPoints ms"
  let ?r = "assignPositions ?s"
  from assms have i: "i < length ?s" and j: "j < length ?s"
    by (simp_all add: length_assignPositions)
  from assms i j have nt: "\<not> tied (?s ! i) (?s ! j)"
    by (simp add: nth_assignPositions)
  have ord: "ranksAbove (?s ! k) (?s ! l) \<or> tied (?s ! k) (?s ! l)"
    if "k < l" "l < length ?s" for k l
    using sorted_any [of ms] that by (simp add: sorted_wrt_iff_nth_less)
  have "i < j \<longleftrightarrow> ranksAbove (?s ! i) (?s ! j)"
  proof
    assume "i < j"
    with ord [of i j] j nt show "ranksAbove (?s ! i) (?s ! j)" by simp
  next
    assume ra: "ranksAbove (?s ! i) (?s ! j)"
    show "i < j"
    proof (rule ccontr)
      assume "\<not> i < j"
      then consider "i = j" | "j < i" by linarith
      then show False
      proof cases
        case 1
        with ra show False by (simp add: ranksAbove_def)
      next
        case 2
        from ord [OF 2 i] ra show False
          using ranksAbove_asym tied_sym ranksAbove_not_tied by blast
      qed
    qed
  qed
  with i j show ?thesis by (simp add: nth_assignPositions)
qed

theorem sort_correct_witness:
  "(0::nat) < length (assignPositions (sortStandingsByPoints [bob, alice1])) \<and>
   (1::nat) < length (assignPositions (sortStandingsByPoints [bob, alice1])) \<and>
   \<not> tied (assignPositions (sortStandingsByPoints [bob, alice1]) ! 0)
          (assignPositions (sortStandingsByPoints [bob, alice1]) ! 1) \<and>
   ((0::nat) < 1 \<longleftrightarrow> ranksAbove (assignPositions (sortStandingsByPoints [bob, alice1]) ! 0)
                              (assignPositions (sortStandingsByPoints [bob, alice1]) ! 1)) \<and>
   map id_driver (assignPositions (sortStandingsByPoints [bob, alice1])) =
     [asc ''Alice'', asc ''Bob'']"
proof -
  have l0: "(0::nat) < length (assignPositions (sortStandingsByPoints [bob, alice1]))"
    by code_simp
  have l1: "(1::nat) < length (assignPositions (sortStandingsByPoints [bob, alice1]))"
    by code_simp
  have nt: "\<not> tied (assignPositions (sortStandingsByPoints [bob, alice1]) ! 0)
                   (assignPositions (sortStandingsByPoints [bob, alice1]) ! 1)"
    by code_simp
  have ids: "map id_driver (assignPositions (sortStandingsByPoints [bob, alice1])) =
     [asc ''Alice'', asc ''Bob'']"
    by code_simp
  from sort_correct [OF l0 l1 nt] l0 l1 nt ids show ?thesis by blast
qed


section \<open>Unique driver identities\<close>

text \<open>
  C8. The output of the Driver Merger has no two entries with the same driver
  identity, and neither has the ranked class, with the merger of either file.
\<close>

theorem unique_ids:
  "distinct (map id_driver (mergeStandingsByDriver sts)) \<and>
   distinct (map id_driver (rankClass sts)) \<and>
   distinct (map id_driver (mergeStandingsByDriver_part000 sts)) \<and>
   distinct (map id_driver (rankClass_part000 sts))"
  by (simp add: rankClass_def rankClass_part000_def ids_assignPositions
      sortStandingsByPoints_def distinct_map_sortJS distinct_ids_merge distinct_ids_merge_part000)

section \<open>Rank stability\<close>

lemma stable_rank:
  assumes ord: "sorted_wrt (\<lambda>a b. firstIndex (id_driver a) ks < firstIndex (id_driver b) ks) ms"
    and i: "i < length (assignPositions (sortStandingsByPoints ms))"
    and j: "j < length (assignPositions (sortStandingsByPoints ms))"
    and t: "tied (assignPositions (sortStandingsByPoints ms) ! i)
                 (assignPositions (sortStandingsByPoints ms) ! j)"
  shows "i < j \<longleftrightarrow>
     firstIndex (id_driver (assignPositions (sortStandingsByPoints ms) ! i)) ks
     < firstIndex (id_driver (assignPositions (sortStandingsByPoints ms) ! j)) ks"
proof -
  let ?s = "sortStandingsByPoints ms"
  let ?f = "\<lambda>a. firstIndex (id_driver a) ks"
  from i j have i': "i < length ?s" and j': "j < length ?s"
    by (simp_all add: length_assignPositions)
  from t i' j' have t': "tied (?s ! i) (?s ! j)"
    by (simp add: nth_assignPositions)
  have srt: "ranksAbove (?s ! k) (?s ! l) \<or> tied (?s ! k) (?s ! l) \<and> ?f (?s ! k) < ?f (?s ! l)"
    if "k < l" "l < length ?s" for k l
    using sorted_sortStandingsByPoints [OF ord] that by (simp add: sorted_wrt_iff_nth_less)
  have "i < j \<longleftrightarrow> ?f (?s ! i) < ?f (?s ! j)"
  proof
    assume "i < j"
    from srt [OF this j'] t' show "?f (?s ! i) < ?f (?s ! j)"
      using ranksAbove_not_tied by blast
  next
    assume lt: "?f (?s ! i) < ?f (?s ! j)"
    show "i < j"
    proof (rule ccontr)
      assume "\<not> i < j"
      then consider "i = j" | "j < i" by linarith
      then show False
      proof cases
        case 1
        with lt show False by simp
      next
        case 2
        from srt [OF 2 i'] t' have "?f (?s ! j) < ?f (?s ! i)"
          using ranksAbove_not_tied tied_sym by blast
        with lt show False by simp
      qed
    qed
  qed
  with i' j' show ?thesis by (simp add: nth_assignPositions)
qed

text \<open>
  C4. Two entries of a ranked class that are tied on both keys stand in the
  order in which their driver identities first occur in the input list of the
  class, with the merger of either file.
\<close>

theorem rank_stability:
  "(i < length (rankClass sts) \<and> j < length (rankClass sts) \<and>
      tied (rankClass sts ! i) (rankClass sts ! j) \<longrightarrow>
      (i < j \<longleftrightarrow>
         firstIndex (id_driver (rankClass sts ! i)) (map id_driver sts)
         < firstIndex (id_driver (rankClass sts ! j)) (map id_driver sts))) \<and>
   (i < length (rankClass_part000 sts) \<and> j < length (rankClass_part000 sts) \<and>
      tied (rankClass_part000 sts ! i) (rankClass_part000 sts ! j) \<longrightarrow>
      (i < j \<longleftrightarrow>
         firstIndex (id_driver (rankClass_part000 sts ! i)) (map id_driver sts)
         < firstIndex (id_driver (rankClass_part000 sts ! j)) (map id_driver sts)))"
  unfolding rankClass_def rankClass_part000_def
  using stable_rank [OF order_merge, of i sts j] stable_rank [OF order_merge_part000, of i sts j]
  by blast


theorem rank_stability_witness:
  "(0::nat) < length (rankClass [dave1, carol, dave2]) \<and>
   (1::nat) < length (rankClass [dave1, carol, dave2]) \<and>
   tied (rankClass [dave1, carol, dave2] ! 0) (rankClass [dave1, carol, dave2] ! 1) \<and>
   (0::nat) < length (rankClass_part000 [dave1, carol, dave2]) \<and>
   (1::nat) < length (rankClass_part000 [dave1, carol, dave2]) \<and>
   tied (rankClass_part000 [dave1, carol, dave2] ! 0)
        (rankClass_part000 [dave1, carol, dave2] ! 1) \<and>
   ((0::nat) < 1 \<longleftrightarrow>
      firstIndex (id_driver (rankClass [dave1, carol, dave2] ! 0))
        (map id_driver [dave1, carol, dave2])
      < firstIndex (id_driver (rankClass [dave1, carol, dave2] ! 1))
          (map id_driver [dave1, carol, dave2])) \<and>
   ((0::nat) < 1 \<longleftrightarrow>
      firstIndex (id_driver (rankClass_part000 [dave1, carol, dave2] ! 0))
        (map id_driver [dave1, carol, dave2])
      < firstIndex (id_driver (rankClass_part000 [dave1, carol, dave2] ! 1))
          (map id_driver [dave1, carol, dave2])) \<and>
   map id_driver (rankClass [dave1, carol, dave2]) = [asc ''Dave'', asc ''Carol'']"
proof -
  have h: "(0::nat) < length (rankClass [dave1, carol, dave2]) \<and>
      (1::nat) < length (rankClass [dave1, carol, dave2]) \<and>
      tied (rankClass [dave1, carol, dave2] ! 0) (rankClass [dave1, carol, dave2] ! 1)"
    by code_simp
  have h': "(0::nat) < length (rankClass_part000 [dave1, carol, dave2]) \<and>
      (1::nat) < length (rankClass_part000 [dave1, carol, dave2]) \<and>
      tied (rankClass_part000 [dave1, carol, dave2] ! 0)
           (rankClass_part000 [dave1, carol, dave2] ! 1)"
    by code_simp
  have ids: "map id_driver (rankClass [dave1, carol, dave2]) = [asc ''Dave'', asc ''Carol'']"
    by code_simp
  from h h' rank_stability [where i = 0 and j = 1 and sts = "[dave1, carol, dave2]"]
  have "((0::nat) < 1 \<longleftrightarrow>
      firstIndex (id_driver (rankClass [dave1, carol, dave2] ! 0))
        (map id_driver [dave1, carol, dave2])
      < firstIndex (id_driver (rankClass [dave1, carol, dave2] ! 1))
          (map id_driver [dave1, carol, dave2])) \<and>
   ((0::nat) < 1 \<longleftrightarrow>
      firstIndex (id_driver (rankClass_part000 [dave1, carol, dave2] ! 0))
        (map id_driver [dave1, carol, dave2])
      < firstIndex (id_driver (rankClass_part000 [dave1, carol, dave2] ! 1))
          (map id_driver [dave1, carol, dave2]))"
    by simp
  with h h' ids show ?thesis by simp
qed

section \<open>The merged record of a driver\<close>

lemma foldInto_sums:
  "championshipPoints (foldl foldInto e rs) = championshipPoints e + sum_list (map championshipPoints rs) \<and>
   championshipPenalties (foldl foldInto e rs) =
     championshipPenalties e + sum_list (map championshipPenalties rs) \<and>
   championshipScore (foldl foldInto e rs) = championshipScore e + sum_list (map championshipScore rs) \<and>
   pointsAdjustment (foldl foldInto e rs) = pointsAdjustment e + sum_list (map pointsAdjustment rs) \<and>
   actualPoints (foldl foldInto e rs) = actualPoints e + sum_list (map actualPoints rs) \<and>
   races (foldl foldInto e rs) = races e @ concat (map races rs) \<and>
   position (foldl foldInto e rs) = position e \<and>
   id_driver (foldl foldInto e rs) = id_driver e \<and>
   carNum (foldl foldInto e rs) = carNum e \<and>
   car (foldl foldInto e rs) = car e"
  by (induction rs arbitrary: e) (simp_all add: foldInto_def)

lemma foldInto_part000_sums:
  "championshipPoints (foldl foldInto_part000 e rs) =
     championshipPoints e + sum_list (map championshipPoints rs) \<and>
   championshipPenalties (foldl foldInto_part000 e rs) = championshipPenalties e \<and>
   championshipScore (foldl foldInto_part000 e rs) =
     championshipScore e + sum_list (map championshipScore rs) \<and>
   pointsAdjustment (foldl foldInto_part000 e rs) = pointsAdjustment e \<and>
   actualPoints (foldl foldInto_part000 e rs) = actualPoints e + sum_list (map actualPoints rs) \<and>
   races (foldl foldInto_part000 e rs) = races e @ concat (map races rs) \<and>
   position (foldl foldInto_part000 e rs) = position e \<and>
   id_driver (foldl foldInto_part000 e rs) = id_driver e \<and>
   carNum (foldl foldInto_part000 e rs) = carNum e \<and>
   car (foldl foldInto_part000 e rs) = car e"
  by (induction rs arbitrary: e) (simp_all add: foldInto_part000_def)

lemma recordsOf_snoc: "recordsOf (id_driver s) (sts @ [s]) = recordsOf (id_driver s) sts @ [s]"
  by (simp add: recordsOf_def)

lemma later_occurrence:
  assumes "lookupDriver (id_driver s) (mergeStandingsByDriver sts) = Some existing"
  shows "lookupDriver (id_driver s) (mergeStandingsByDriver (sts @ [s])) = Some (foldInto existing s)"
  using assms by (auto simp: lookup_merge recordsOf_snoc split: list.splits)

lemma later_occurrence_part000:
  assumes "lookupDriver (id_driver s) (mergeStandingsByDriver_part000 sts) = Some existing"
  shows "lookupDriver (id_driver s) (mergeStandingsByDriver_part000 (sts @ [s])) =
     Some (foldInto_part000 existing s)"
  using assms by (auto simp: lookup_merge_part000 recordsOf_snoc split: list.splits)

lemma first_occurrence:
  assumes "lookupDriver (id_driver s) (mergeStandingsByDriver sts) = None"
  shows "lookupDriver (id_driver s) (mergeStandingsByDriver (sts @ [s])) = Some (seedOf s)"
  using assms by (auto simp: lookup_merge recordsOf_snoc split: list.splits)

text \<open>
  C1. At a later occurrence of a driver the merger of \<^verbatim>\<open>merge-results.ts\<close> adds
  all five numeric fields to the stored record (\<open>later_occurrence\<close> with
  \<open>foldInto\<close>). The merger of \<^verbatim>\<open>part_000\<close> adds three of them and leaves
  \<^verbatim>\<open>championshipPenalties\<close> and \<^verbatim>\<open>pointsAdjustment\<close> at the values of the first
  occurrence: for Alice, with penalties 1 then 2 and adjustments 2 then 1, it
  returns 1 and 2 where the sums are 3 and 3.
\<close>

theorem merge_policy_part000:
  "lookupDriver (asc ''Alice'') (mergeStandingsByDriver_part000 [alice1]) = Some (seedOf alice1) \<and>
   map championshipPenalties (mergeStandingsByDriver_part000 [alice1, alice2]) = [1] \<and>
   map pointsAdjustment (mergeStandingsByDriver_part000 [alice1, alice2]) = [2] \<and>
   championshipPenalties (seedOf alice1) + championshipPenalties alice2 = 3 \<and>
   pointsAdjustment (seedOf alice1) + pointsAdjustment alice2 = 3 \<and>
   map championshipPenalties (mergeStandingsByDriver [alice1, alice2]) = [3] \<and>
   map pointsAdjustment (mergeStandingsByDriver [alice1, alice2]) = [3]"
  by code_simp

subsection \<open>Where the two mergers agree\<close>

text \<open>
  The two mergers return the same list when no driver identity occurs twice,
  and on every input they return lists that differ at most in
  \<^verbatim>\<open>championshipPenalties\<close> and \<^verbatim>\<open>pointsAdjustment\<close>.
\<close>

lemma update_absent: "k \<notin> fst ` set al \<Longrightarrow> AList.update k v al = al @ [(k, v)]"
  by (induction al) auto

lemma map_of_absent: "k \<notin> fst ` set al \<Longrightarrow> map_of al k = None"
  by (simp add: map_of_eq_None_iff)

lemma loop_distinct_keys:
  assumes U: "\<And>acc s. step acc s =
      AList.update (key s) (case map_of acc (key s) of Some e \<Rightarrow> add e s | None \<Rightarrow> seed s) acc"
  shows "distinct (map key xs) \<Longrightarrow> key ` set xs \<inter> fst ` set acc = {} \<Longrightarrow>
         foldl step acc xs = acc @ map (\<lambda>s. (key s, seed s)) xs"
proof (induction xs arbitrary: acc)
  case Nil
  then show ?case by simp
next
  case (Cons x xs)
  from Cons.prems have k: "key x \<notin> fst ` set acc" by auto
  then have s: "step acc x = acc @ [(key x, seed x)]"
    by (simp add: U map_of_absent update_absent)
  from Cons.prems have "key ` set xs \<inter> fst ` set (acc @ [(key x, seed x)]) = {}"
    by auto
  with Cons.prems Cons.IH [of "acc @ [(key x, seed x)]"] show ?case
    by (simp add: s)
qed

lemma merge_distinct_ids:
  assumes "distinct (map id_driver sts)"
  shows "mergeStandingsByDriver sts = map seedOf sts"
    and "mergeStandingsByDriver_part000 sts = map seedOf sts"
  using assms
    loop_distinct_keys [where step = mergeBody and key = id_driver and add = foldInto
      and seed = seedOf and acc = "[]" and xs = sts, OF mergeBody_update]
    loop_distinct_keys [where step = mergeBody_part000 and key = id_driver
      and add = foldInto_part000 and seed = seedOf and acc = "[]" and xs = sts,
      OF mergeBody_part000_update]
  by (simp_all add: mergeStandingsByDriver_def mergeStandingsByDriver_part000_def comp_def)

lemma mergers_agree_distinct_ids:
  "distinct (map id_driver sts) \<Longrightarrow>
   mergeStandingsByDriver sts = mergeStandingsByDriver_part000 sts"
  by (simp add: merge_distinct_ids)

lemma map_update_values:
  "map (\<lambda>(k, v). (k, f v)) (AList.update k v al) =
   AList.update k (f v) (map (\<lambda>(k, v). (k, f v)) al)"
  by (induction al) auto

lemma foldInto_agree:
  "e\<lparr>championshipPenalties := 0, pointsAdjustment := 0\<rparr> =
   e'\<lparr>championshipPenalties := 0, pointsAdjustment := 0\<rparr> \<Longrightarrow>
   (foldInto e s)\<lparr>championshipPenalties := 0, pointsAdjustment := 0\<rparr> =
   (foldInto_part000 e' s)\<lparr>championshipPenalties := 0, pointsAdjustment := 0\<rparr>"
  by (cases e, cases e') (simp add: foldInto_def foldInto_part000_def)

lemma mergeBody_agree:
  assumes "map (\<lambda>(k, m). (k, m\<lparr>championshipPenalties := 0, pointsAdjustment := 0\<rparr>)) acc =
           map (\<lambda>(k, m). (k, m\<lparr>championshipPenalties := 0, pointsAdjustment := 0\<rparr>)) acc'"
  shows "map (\<lambda>(k, m). (k, m\<lparr>championshipPenalties := 0, pointsAdjustment := 0\<rparr>))
           (mergeBody acc s) =
         map (\<lambda>(k, m). (k, m\<lparr>championshipPenalties := 0, pointsAdjustment := 0\<rparr>))
           (mergeBody_part000 acc' s)"
proof -
  let ?E = "\<lambda>m :: MergedStanding. m\<lparr>championshipPenalties := 0, pointsAdjustment := 0\<rparr>"
  from assms have "map_of (map (\<lambda>(k, m). (k, ?E m)) acc) (id_driver s) =
      map_of (map (\<lambda>(k, m). (k, ?E m)) acc') (id_driver s)"
    by simp
  then have l: "map_option ?E (map_of acc (id_driver s)) = map_option ?E (map_of acc' (id_driver s))"
    by (simp add: map_of_map)
  have "?E (case map_of acc (id_driver s) of Some e \<Rightarrow> foldInto e s | None \<Rightarrow> seedOf s) =
        ?E (case map_of acc' (id_driver s) of Some e \<Rightarrow> foldInto_part000 e s | None \<Rightarrow> seedOf s)"
  proof (cases "map_of acc (id_driver s)")
    case None
    with l have "map_of acc' (id_driver s) = None" by simp
    with None show ?thesis by simp
  next
    case (Some e)
    with l obtain e' where e': "map_of acc' (id_driver s) = Some e'" and "?E e = ?E e'"
      by (cases "map_of acc' (id_driver s)") auto
    then have "?E (foldInto e s) = ?E (foldInto_part000 e' s)" by (intro foldInto_agree)
    with Some e' show ?thesis by simp
  qed
  then show ?thesis
    using assms by (simp add: mergeBody_update mergeBody_part000_update map_update_values)
qed

lemma driverMap_agree:
  "map (\<lambda>(k, m). (k, m\<lparr>championshipPenalties := 0, pointsAdjustment := 0\<rparr>)) acc =
   map (\<lambda>(k, m). (k, m\<lparr>championshipPenalties := 0, pointsAdjustment := 0\<rparr>)) acc' \<Longrightarrow>
   map (\<lambda>(k, m). (k, m\<lparr>championshipPenalties := 0, pointsAdjustment := 0\<rparr>))
     (foldl mergeBody acc sts) =
   map (\<lambda>(k, m). (k, m\<lparr>championshipPenalties := 0, pointsAdjustment := 0\<rparr>))
     (foldl mergeBody_part000 acc' sts)"
proof (induction sts arbitrary: acc acc')
  case Nil
  then show ?case by simp
next
  case (Cons s sts)
  from Cons.IH [OF mergeBody_agree [OF Cons.prems]] show ?case by simp
qed

lemma mergers_agree_elsewhere:
  "map (\<lambda>m. m\<lparr>championshipPenalties := 0, pointsAdjustment := 0\<rparr>) (mergeStandingsByDriver sts) =
   map (\<lambda>m. m\<lparr>championshipPenalties := 0, pointsAdjustment := 0\<rparr>)
     (mergeStandingsByDriver_part000 sts)"
proof -
  let ?E = "\<lambda>m :: MergedStanding. m\<lparr>championshipPenalties := 0, pointsAdjustment := 0\<rparr>"
  have "map snd (map (\<lambda>(k, m). (k, ?E m)) (foldl mergeBody [] sts)) =
        map snd (map (\<lambda>(k, m). (k, ?E m)) (foldl mergeBody_part000 [] sts))"
    by (simp only: driverMap_agree [of "[]" "[]" sts])
  then show ?thesis
    by (simp add: mergeStandingsByDriver_def mergeStandingsByDriver_part000_def comp_def
        case_prod_unfold)
qed

text \<open>
  C10. The mergers of the two files return different lists for the two records
  of Alice.
\<close>

theorem mergers_differ:
  "mergeStandingsByDriver [alice1, alice2] \<noteq> mergeStandingsByDriver_part000 [alice1, alice2]"
  by code_simp

text \<open>
  C6. The races of the merged record of a driver are the concatenation, in the
  order of the input, of the race lists of the records of that driver, with
  the merger of either file; a driver without a record has no merged record.
\<close>

theorem races_concatenated:
  "map_option races (lookupDriver d (mergeStandingsByDriver sts)) =
     (if recordsOf d sts = [] then None else Some (concat (map races (recordsOf d sts)))) \<and>
   map_option races (lookupDriver d (mergeStandingsByDriver_part000 sts)) =
     (if recordsOf d sts = [] then None else Some (concat (map races (recordsOf d sts))))"
  by (simp add: lookup_merge lookup_merge_part000 foldInto_sums foldInto_part000_sums seedOf_def
      split: list.split)

theorem races_concatenated_witness:
  "recordsOf (asc ''Alice'') [alice1\<lparr>races := [R1, R2]\<rparr>, bob, alice2\<lparr>races := [R3]\<rparr>] \<noteq> [] \<and>
   map_option races (lookupDriver (asc ''Alice'')
     (mergeStandingsByDriver [alice1\<lparr>races := [R1, R2]\<rparr>, bob, alice2\<lparr>races := [R3]\<rparr>])) =
     Some [R1, R2, R3] \<and>
   map_option races (lookupDriver (asc ''Alice'')
     (mergeStandingsByDriver_part000 [alice1\<lparr>races := [R1, R2]\<rparr>, bob, alice2\<lparr>races := [R3]\<rparr>])) =
     Some [R1, R2, R3]"
proof -
  have r: "recordsOf (asc ''Alice'') [alice1\<lparr>races := [R1, R2]\<rparr>, bob, alice2\<lparr>races := [R3]\<rparr>] =
      [alice1\<lparr>races := [R1, R2]\<rparr>, alice2\<lparr>races := [R3]\<rparr>]"
    by code_simp
  show ?thesis
    using races_concatenated [of "asc ''Alice''"
        "[alice1\<lparr>races := [R1, R2]\<rparr>, bob, alice2\<lparr>races := [R3]\<rparr>]"]
    by (simp add: r)
qed

section \<open>Loader and grouper\<close>

lemma readLoop_all_parsed:
  "map (\<lambda>file. parse (snd file)) files = map Inr fragments \<Longrightarrow>
   readLoop parse allData files = Inr (allData @ concat fragments)"
proof (induction files arbitrary: allData fragments)
  case Nil
  then show ?case by simp
next
  case (Cons x xs)
  then obtain data rest where f: "fragments = data # rest" and p: "parse (snd x) = Inr data"
    and r: "map (\<lambda>file. parse (snd file)) xs = map Inr rest"
    by (cases fragments) auto
  show ?case by (simp add: f p Cons.IH [OF r])
qed

lemma readAllJsonFiles_all_parsed:
  "map (\<lambda>file. parse (snd file)) (filter (\<lambda>file. endsWith (fst file) (asc ''.json'')) directory)
     = map Inr fragments \<Longrightarrow>
   readAllJsonFiles parse directory = Inr (concat fragments)"
  by (simp add: readAllJsonFiles_def readLoop_all_parsed)


lemma readLoop_success:
  "\<forall>file\<in>set files. \<exists>data. parse (snd file) = Inr data \<Longrightarrow>
   \<exists>allData'. readLoop parse allData files = Inr allData'"
proof (induction files arbitrary: allData)
  case Nil
  then show ?case by simp
next
  case (Cons x xs)
  then obtain data where "parse (snd x) = Inr data" by auto
  with Cons show ?case by simp
qed

lemma groupBody_update:
  "groupBody acc classData =
     AList.update (carClass classData)
       (case map_of acc (carClass classData) of
          Some e \<Rightarrow> e @ standings classData | None \<Rightarrow> standings classData) acc"
  by (simp add: groupBody_def split: option.split)

lemma foldl_append_standings:
  "foldl (\<lambda>e classData. e @ standings classData) e cds = e @ concat (map standings cds)"
  by (induction cds arbitrary: e) simp_all

lemma lookup_group:
  "map_of (groupByClass allClassData) c =
     (if c \<in> carClass ` set allClassData then Some (classStandings c allClassData) else None)"
proof -
  have "filter (\<lambda>classData. carClass classData = c) allClassData = [] \<longleftrightarrow>
      c \<notin> carClass ` set allClassData"
    by (auto simp: filter_empty_conv)
  then show ?thesis
    unfolding groupByClass_def classStandings_def
    by (auto simp add: loop_lookup [where step = groupBody and key = carClass
          and add = "\<lambda>e classData. e @ standings classData" and seed = standings,
          OF groupBody_update] foldl_append_standings split: list.split)
qed

lemma contributions_empty:
  "c \<notin> carClass ` set allClassData \<Longrightarrow> contributions c d allClassData = []"
proof -
  assume "c \<notin> carClass ` set allClassData"
  then have "filter (\<lambda>classData. carClass classData = c) allClassData = []"
    by (auto simp: filter_empty_conv)
  then show ?thesis
    by (simp add: contributions_def classStandings_def recordsOf_def)
qed

lemma mergedRecord_fold:
  "mergedRecord c d allClassData =
     (case contributions c d allClassData of
        [] \<Rightarrow> None
      | s # rest \<Rightarrow> Some (foldl foldInto (seedOf s) rest))"
  by (simp add: mergedRecord_def lookup_group lookup_merge contributions_empty)
    (simp add: contributions_def)

lemma mergedRecord_part000_fold:
  "mergedRecord_part000 c d allClassData =
     (case contributions c d allClassData of
        [] \<Rightarrow> None
      | s # rest \<Rightarrow> Some (foldl foldInto_part000 (seedOf s) rest))"
  by (simp add: mergedRecord_part000_def lookup_group lookup_merge_part000 contributions_empty)
    (simp add: contributions_def)

lemma merged_sums:
  "mergedRecord c d allClassData = Some m \<Longrightarrow>
     championshipPoints m = sum_list (map championshipPoints (contributions c d allClassData)) \<and>
     championshipScore m = sum_list (map championshipScore (contributions c d allClassData))"
  by (auto simp: mergedRecord_fold foldInto_sums seedOf_def split: list.splits)

lemma merged_sums_part000:
  "mergedRecord_part000 c d allClassData = Some m \<Longrightarrow>
     championshipPoints m = sum_list (map championshipPoints (contributions c d allClassData)) \<and>
     championshipScore m = sum_list (map championshipScore (contributions c d allClassData))"
  by (auto simp: mergedRecord_part000_fold foldInto_part000_sums seedOf_def split: list.splits)

lemma merged_closed:
  "map_option championshipPoints (mergedRecord c d allClassData) =
     (if contributions c d allClassData = [] then None
      else Some (sum_list (map championshipPoints (contributions c d allClassData)))) \<and>
   map_option championshipScore (mergedRecord c d allClassData) =
     (if contributions c d allClassData = [] then None
      else Some (sum_list (map championshipScore (contributions c d allClassData))))"
  by (simp add: mergedRecord_fold foldInto_sums seedOf_def split: list.split)

lemma merged_closed_part000:
  "map_option championshipPoints (mergedRecord_part000 c d allClassData) =
     (if contributions c d allClassData = [] then None
      else Some (sum_list (map championshipPoints (contributions c d allClassData)))) \<and>
   map_option championshipScore (mergedRecord_part000 c d allClassData) =
     (if contributions c d allClassData = [] then None
      else Some (sum_list (map championshipScore (contributions c d allClassData))))"
  by (simp add: mergedRecord_part000_fold foldInto_part000_sums seedOf_def split: list.split)

text \<open>
  C5. The loader hands on the concatenation of the fragments it read
  (\<open>readAllJsonFiles_all_parsed\<close>). When the records of a driver in a class are the
  same, in the same order, in \<open>N\<close> fragments and in one fragment, the merged
  record of the driver has in both cases the same championship points and the
  same championship score, and each of them is the sum over these records (and
  there is a merged record exactly when there is a record), with the merger of
  either file.
\<close>

theorem repartition:
  assumes "contributions c d (concat fragments) = contributions c d (concat [fragment])"
  shows "map_option championshipPoints (mergedRecord c d (concat fragments)) =
           map_option championshipPoints (mergedRecord c d (concat [fragment])) \<and>
         map_option championshipPoints (mergedRecord c d (concat [fragment])) =
           (if contributions c d (concat [fragment]) = [] then None
            else Some (sum_list (map championshipPoints
                   (contributions c d (concat [fragment]))))) \<and>
         map_option championshipScore (mergedRecord c d (concat fragments)) =
           map_option championshipScore (mergedRecord c d (concat [fragment])) \<and>
         map_option championshipScore (mergedRecord c d (concat [fragment])) =
           (if contributions c d (concat [fragment]) = [] then None
            else Some (sum_list (map championshipScore
                   (contributions c d (concat [fragment]))))) \<and>
         map_option championshipPoints (mergedRecord_part000 c d (concat fragments)) =
           map_option championshipPoints (mergedRecord_part000 c d (concat [fragment])) \<and>
         map_option championshipPoints (mergedRecord_part000 c d (concat [fragment])) =
           (if contributions c d (concat [fragment]) = [] then None
            else Some (sum_list (map championshipPoints
                   (contributions c d (concat [fragment]))))) \<and>
         map_option championshipScore (mergedRecord_part000 c d (concat fragments)) =
           map_option championshipScore (mergedRecord_part000 c d (concat [fragment])) \<and>
         map_option championshipScore (mergedRecord_part000 c d (concat [fragment])) =
           (if contributions c d (concat [fragment]) = [] then None
            else Some (sum_list (map championshipScore
                   (contributions c d (concat [fragment])))))"
  using assms by (simp only: merged_closed merged_closed_part000)

theorem repartition_witness:
  "readAllJsonFiles exampleParse twoFragments =
     Inr (concat [[\<lparr>carClass = asc ''GT3'', standings = [alice1]\<rparr>],
                  [\<lparr>carClass = asc ''GT3'', standings = [alice2, bob]\<rparr>]]) \<and>
   readAllJsonFiles exampleParse oneFragment =
     Inr (concat [[\<lparr>carClass = asc ''GT3'', standings = [alice1, alice2, bob]\<rparr>]]) \<and>
   contributions (asc ''GT3'') (asc ''Alice'')
     (concat [[\<lparr>carClass = asc ''GT3'', standings = [alice1]\<rparr>],
              [\<lparr>carClass = asc ''GT3'', standings = [alice2, bob]\<rparr>]]) =
   contributions (asc ''GT3'') (asc ''Alice'')
     (concat [[\<lparr>carClass = asc ''GT3'', standings = [alice1, alice2, bob]\<rparr>]]) \<and>
   map_option championshipPoints (mergedRecord (asc ''GT3'') (asc ''Alice'')
     (concat [[\<lparr>carClass = asc ''GT3'', standings = [alice1]\<rparr>],
              [\<lparr>carClass = asc ''GT3'', standings = [alice2, bob]\<rparr>]])) = Some 18 \<and>
   map_option championshipPoints (mergedRecord (asc ''GT3'') (asc ''Alice'')
     (concat [[\<lparr>carClass = asc ''GT3'', standings = [alice1, alice2, bob]\<rparr>]])) = Some 18 \<and>
   map_option championshipScore (mergedRecord (asc ''GT3'') (asc ''Alice'')
     (concat [[\<lparr>carClass = asc ''GT3'', standings = [alice1]\<rparr>],
              [\<lparr>carClass = asc ''GT3'', standings = [alice2, bob]\<rparr>]])) = Some 8 \<and>
   map_option championshipScore (mergedRecord (asc ''GT3'') (asc ''Alice'')
     (concat [[\<lparr>carClass = asc ''GT3'', standings = [alice1, alice2, bob]\<rparr>]])) = Some 8 \<and>
   map_option championshipPoints (mergedRecord_part000 (asc ''GT3'') (asc ''Alice'')
     (concat [[\<lparr>carClass = asc ''GT3'', standings = [alice1]\<rparr>],
              [\<lparr>carClass = asc ''GT3'', standings = [alice2, bob]\<rparr>]])) = Some 18 \<and>
   map_option championshipPoints (mergedRecord_part000 (asc ''GT3'') (asc ''Alice'')
     (concat [[\<lparr>carClass = asc ''GT3'', standings = [alice1, alice2, bob]\<rparr>]])) = Some 18 \<and>
   map_option championshipScore (mergedRecord_part000 (asc ''GT3'') (asc ''Alice'')
     (concat [[\<lparr>carClass = asc ''GT3'', standings = [alice1]\<rparr>],
              [\<lparr>carClass = asc ''GT3'', standings = [alice2, bob]\<rparr>]])) = Some 8 \<and>
   map_option championshipScore (mergedRecord_part000 (asc ''GT3'') (asc ''Alice'')
     (concat [[\<lparr>carClass = asc ''GT3'', standings = [alice1, alice2, bob]\<rparr>]])) = Some 8"
proof -
  have l: "readAllJsonFiles exampleParse twoFragments =
     Inr (concat [[\<lparr>carClass = asc ''GT3'', standings = [alice1]\<rparr>],
                  [\<lparr>carClass = asc ''GT3'', standings = [alice2, bob]\<rparr>]])"
    by code_simp
  have l': "readAllJsonFiles exampleParse oneFragment =
     Inr (concat [[\<lparr>carClass = asc ''GT3'', standings = [alice1, alice2, bob]\<rparr>]])"
    by code_simp
  have h: "contributions (asc ''GT3'') (asc ''Alice'')
     (concat [[\<lparr>carClass = asc ''GT3'', standings = [alice1]\<rparr>],
              [\<lparr>carClass = asc ''GT3'', standings = [alice2, bob]\<rparr>]]) =
   contributions (asc ''GT3'') (asc ''Alice'')
     (concat [[\<lparr>carClass = asc ''GT3'', standings = [alice1, alice2, bob]\<rparr>]])"
    by code_simp
  have c: "contributions (asc ''GT3'') (asc ''Alice'')
     (concat [[\<lparr>carClass = asc ''GT3'', standings = [alice1, alice2, bob]\<rparr>]]) \<noteq> []"
    and p: "sum_list (map championshipPoints (contributions (asc ''GT3'') (asc ''Alice'')
      (concat [[\<lparr>carClass = asc ''GT3'', standings = [alice1, alice2, bob]\<rparr>]]))) = 18"
    and q: "sum_list (map championshipScore (contributions (asc ''GT3'') (asc ''Alice'')
      (concat [[\<lparr>carClass = asc ''GT3'', standings = [alice1, alice2, bob]\<rparr>]]))) = 8"
    by code_simp+
  from repartition [OF h] l l' h show ?thesis
    by (simp only: c p q if_False)
qed

text \<open>A run in which every fragment is read hands a message to the sink.\<close>

lemma run_succeeds:
  assumes "\<forall>file\<in>set directory. endsWith (fst file) (asc ''.json'') \<longrightarrow>
             (\<exists>data. parse (snd file) = Inr data)"
  shows "(\<exists>message. mergeAndSortResults parse localeCompare directory = Inr message) \<and>
         (\<exists>message. mergeAndSortResults_part000 parse localeCompare directory = Inr message)"
proof -
  from assms have "\<forall>file\<in>set (filter (\<lambda>file. endsWith (fst file) (asc ''.json'')) directory).
      \<exists>data. parse (snd file) = Inr data"
    by simp
  from readLoop_success [OF this, of "[]"] obtain allData where
    "readAllJsonFiles parse directory = Inr allData"
    by (auto simp: readAllJsonFiles_def)
  then show ?thesis
    by (simp add: mergeAndSortResults_def mergeAndSortResults_part000_def)
qed




text \<open>
  The contents of the examples that stand for well-formed fragments have the
  expected shape.
\<close>

lemma examples_deserialize:
  "deserializes exampleParse (asc ''fragment 1'') \<and>
   deserializes exampleParse (asc ''fragment 2'') \<and>
   deserializes exampleParse (asc ''one fragment'') \<and>
   raceOf R2 = Some \<lparr>Race.position = 2, pointsGiven = 8, penaltyPoints = Some 1, pointsTotal = 7,
                      dnf = False, dns = False\<rparr>"
  by code_simp


section \<open>Widths of the columns\<close>

lemma length_asc: "length (asc s) = length s"
  by (simp add: asc_def)

lemma length_padStart: "length (padStart s n) = max n (length s)"
  by (simp add: padStart_def)

lemma length_padEnd: "length (padEnd s n) = max n (length s)"
  by (simp add: padEnd_def)

lemma length_truncateText:
  "0 < n \<Longrightarrow> length (truncateText t n) = min (length t) n"
  by (simp add: truncateText_def length_asc)

lemma length_truncateAndPad: "3 \<le> n \<Longrightarrow> length (truncateAndPad t n) = n"
  by (auto simp: truncateAndPad_def length_asc length_padEnd)

lemma length_digitsOf_1: "n < 10 \<Longrightarrow> length (digitsOf n) = 1"
  by (simp add: digitsOf.simps)

lemma length_digitsOf_2: "n < 100 \<Longrightarrow> length (digitsOf n) \<le> 2"
  by (subst digitsOf.simps) (simp add: length_digitsOf_1)

lemma length_digitsOf_3: "n < 1000 \<Longrightarrow> length (digitsOf n) \<le> 3"
proof -
  assume "n < 1000"
  then have "n div 10 < 100" by simp
  then have "length (digitsOf (n div 10)) \<le> 2" by (rule length_digitsOf_2)
  then show ?thesis by (subst digitsOf.simps) simp
qed

lemma length_digitsOf_pos: "0 < length (digitsOf n)"
  by (subst digitsOf.simps) simp

lemma length_numberToString:
  "- 99 \<le> n \<Longrightarrow> n \<le> 999 \<Longrightarrow> length (numberToString n) \<le> 3"
proof -
  assume lo: "- 99 \<le> n" and hi: "n \<le> 999"
  show ?thesis
  proof (cases "n < 0")
    case True
    with lo have "nat (- n) < 100" by simp
    then have "length (digitsOf (nat (- n))) \<le> 2" by (rule length_digitsOf_2)
    with True show ?thesis by (simp add: numberToString_def length_asc)
  next
    case False
    with hi have "nat n < 1000" by simp
    then have "length (digitsOf (nat n)) \<le> 3" by (rule length_digitsOf_3)
    with False show ?thesis by (simp add: numberToString_def)
  qed
qed

lemma length_rowPos:
  "- 99 \<le> position s \<Longrightarrow> position s \<le> 999 \<Longrightarrow> length (rowPos s) = POS_WIDTH"
  using length_numberToString [of "position s"]
  by (simp add: rowPos_def length_padStart length_asc POS_WIDTH_def)

lemma length_rowPos_part000:
  "- 99 \<le> position s \<Longrightarrow> position s \<le> 999 \<Longrightarrow> length (rowPos_part000 s) = POS_WIDTH_part000"
  using length_numberToString [of "position s"]
  by (simp add: rowPos_part000_def formatStandingPosition_def length_padStart length_asc
      POS_WIDTH_part000_def)

lemma length_rowPoints:
  "- 99 \<le> championshipPoints s \<Longrightarrow> championshipPoints s \<le> 999 \<Longrightarrow>
   length (rowPoints s) = POINTS_WIDTH"
  using length_numberToString [of "championshipPoints s"]
  by (simp add: rowPoints_def toFixed0_def length_padStart POINTS_WIDTH_def)

lemma length_rowDriver: "length (rowDriver s) = DRIVER_WIDTH"
  by (simp add: rowDriver_def length_padEnd length_truncateText DRIVER_WIDTH_def)

lemma length_rowCar: "length (rowCar s) = CAR_WIDTH"
  by (simp add: rowCar_def length_padEnd length_truncateText CAR_WIDTH_def)

lemma length_rowDriver_part000: "length (rowDriver_part000 s) = DRIVER_WIDTH_part000"
  by (simp add: rowDriver_part000_def length_truncateAndPad DRIVER_WIDTH_part000_def)

lemma length_rowCar_part000: "length (rowCar_part000 s) = CAR_WIDTH_part000"
  by (simp add: rowCar_part000_def length_truncateAndPad CAR_WIDTH_part000_def)

lemma length_rowPoints_part000: "length (rowPoints_part000 s) = POINTS_WIDTH_part000"
  by (simp add: rowPoints_part000_def length_truncateAndPad POINTS_WIDTH_part000_def)

lemma rowDriver_cases:
  "rowDriver s =
     (if DRIVER_WIDTH < length (trim (id_driver s))
      then take (DRIVER_WIDTH - 1) (trim (id_driver s)) @ asc ''.''
      else trim (id_driver s) @ replicate (DRIVER_WIDTH - length (trim (id_driver s))) space)"
  by (simp add: rowDriver_def truncateText_def padEnd_def length_asc DRIVER_WIDTH_def)

lemma rowCar_cases:
  "rowCar s =
     (if CAR_WIDTH < length (trim (car s))
      then take (CAR_WIDTH - 1) (trim (car s)) @ asc ''.''
      else trim (car s) @ replicate (CAR_WIDTH - length (trim (car s))) space)"
  by (simp add: rowCar_def truncateText_def padEnd_def length_asc CAR_WIDTH_def)

lemma rowDriver_part000_cases:
  "rowDriver_part000 s =
     (if DRIVER_WIDTH_part000 < length (trim (id_driver s))
      then take (DRIVER_WIDTH_part000 - 3) (trim (id_driver s)) @ asc ''...''
      else trim (id_driver s) @
           replicate (DRIVER_WIDTH_part000 - length (trim (id_driver s))) space)"
  by (simp add: rowDriver_part000_def truncateAndPad_def padEnd_def)

lemma rowCar_part000_cases:
  "rowCar_part000 s =
     (if CAR_WIDTH_part000 < length (trim (car s))
      then take (CAR_WIDTH_part000 - 3) (trim (car s)) @ asc ''...''
      else trim (car s) @ replicate (CAR_WIDTH_part000 - length (trim (car s))) space)"
  by (simp add: rowCar_part000_def truncateAndPad_def padEnd_def)

lemma rowPoints_part000_cases:
  "rowPoints_part000 s =
     (if POINTS_WIDTH_part000 < length (toFixed1 (championshipPoints s))
      then take (POINTS_WIDTH_part000 - 3) (toFixed1 (championshipPoints s)) @ asc ''...''
      else toFixed1 (championshipPoints s) @
           replicate (POINTS_WIDTH_part000 - length (toFixed1 (championshipPoints s))) space)"
  by (simp add: rowPoints_part000_def truncateAndPad_def padEnd_def)

lemma rowPos_padded:
  "rowPos s =
     replicate (POS_WIDTH - length (numberToString (position s) @ asc ''.'')) space @
     numberToString (position s) @ asc ''.''"
  by (simp add: rowPos_def padStart_def)

lemma rowPos_part000_padded:
  "rowPos_part000 s =
     replicate (POS_WIDTH_part000 - length (numberToString (position s) @ asc ''.'')) space @
     numberToString (position s) @ asc ''.''"
  by (simp add: rowPos_part000_def formatStandingPosition_def padStart_def POS_WIDTH_part000_def)

lemma length_rowPos_ge: "POS_WIDTH \<le> length (rowPos s) \<and> POS_WIDTH_part000 \<le> length (rowPos_part000 s)"
  by (simp add: rowPos_def rowPos_part000_def formatStandingPosition_def length_padStart
      POS_WIDTH_def POS_WIDTH_part000_def)

lemma length_header: "length headerRow_part000 = 74 \<and> length rulerRow_part000 = 74"
  by (simp add: headerRow_part000_def rulerRow_part000_def length_truncateAndPad length_asc
    POS_WIDTH_part000_def DRIVER_WIDTH_part000_def CAR_WIDTH_part000_def POINTS_WIDTH_part000_def)

text \<open>
  In \<^verbatim>\<open>part_000\<close> every row of a ranked class of at most \<open>999\<close> drivers has the
  fixed length.
\<close>

lemma positions_in_range:
  assumes "m \<in> set (assignPositions ms)"
  shows "1 \<le> position m \<and> position m \<le> int (length ms)"
proof -
  from assms have "position m \<in> set (map position (assignPositions ms))" by simp
  then show ?thesis by (simp only: set_positions) simp
qed

lemma ranked_rows_part000:
  assumes "length (mergeStandingsByDriver_part000 sts) \<le> 999"
    and "m \<in> set (rankClass_part000 sts)"
  shows "length (formatRow_part000 m) = 74"
proof -
  from assms(2) have "1 \<le> position m \<and>
      position m \<le> int (length (sortStandingsByPoints (mergeStandingsByDriver_part000 sts)))"
    unfolding rankClass_part000_def by (rule positions_in_range)
  with assms(1) have "- 99 \<le> position m" "position m \<le> 999"
    by (simp_all add: sortStandingsByPoints_def length_sortJS)
  then show ?thesis
    by (simp add: formatRow_part000_def length_rowPos_part000 length_rowDriver_part000
        length_rowCar_part000 length_rowPoints_part000 length_asc POS_WIDTH_part000_def
        DRIVER_WIDTH_part000_def CAR_WIDTH_part000_def POINTS_WIDTH_part000_def)
qed

text \<open>
  C2, as the code has it. The columns are \<open>4\<close>, \<open>15\<close>, \<open>13\<close> and \<open>3\<close> wide in
  \<^verbatim>\<open>merge-results.ts\<close>, with separators of \<open>1\<close>, \<open>3\<close> and \<open>3\<close> code units, and \<open>4\<close>, \<open>30\<close>,
  \<open>25\<close> and \<open>6\<close> wide in \<^verbatim>\<open>part_000\<close>, with three separators of \<open>3\<close>. The position
  column is padded and never cut in either file, so a row has the fixed length
  when the position is between \<open>-99\<close> and \<open>999\<close> and, in \<^verbatim>\<open>merge-results.ts\<close>, the
  points are too. For every input the driver and car columns of both files and
  the points column of \<^verbatim>\<open>part_000\<close> have exactly their width: a text longer than
  the column is cut and ends in \<^verbatim>\<open>.\<close> (\<^verbatim>\<open>merge-results.ts\<close>) or \<^verbatim>\<open>...\<close> (\<^verbatim>\<open>part_000\<close>),
  a text that is not longer is padded with spaces. The position column is the
  whole text \<^verbatim>\<open>N.\<close> after the spaces that pad it, in both files.
\<close>

theorem row_width:
  "(- 99 \<le> position s \<and> position s \<le> 999 \<longrightarrow>
      length (formatRow_part000 s) =
        POS_WIDTH_part000 + length (asc '' | '') + DRIVER_WIDTH_part000 + length (asc '' | '') +
        CAR_WIDTH_part000 + length (asc '' | '') + POINTS_WIDTH_part000) \<and>
   (- 99 \<le> position s \<and> position s \<le> 999 \<and>
    - 99 \<le> championshipPoints s \<and> championshipPoints s \<le> 999 \<longrightarrow>
      length (formatRow s) =
        POS_WIDTH + length (asc '' '') + DRIVER_WIDTH + length (asc '' | '') +
        CAR_WIDTH + length (asc '' | '') + POINTS_WIDTH) \<and>
   length (rowDriver s) = DRIVER_WIDTH \<and>
   length (rowCar s) = CAR_WIDTH \<and>
   length (rowDriver_part000 s) = DRIVER_WIDTH_part000 \<and>
   length (rowCar_part000 s) = CAR_WIDTH_part000 \<and>
   length (rowPoints_part000 s) = POINTS_WIDTH_part000 \<and>
   rowDriver s =
     (if DRIVER_WIDTH < length (trim (id_driver s))
      then take (DRIVER_WIDTH - 1) (trim (id_driver s)) @ asc ''.''
      else trim (id_driver s) @ replicate (DRIVER_WIDTH - length (trim (id_driver s))) space) \<and>
   rowCar s =
     (if CAR_WIDTH < length (trim (car s))
      then take (CAR_WIDTH - 1) (trim (car s)) @ asc ''.''
      else trim (car s) @ replicate (CAR_WIDTH - length (trim (car s))) space) \<and>
   rowDriver_part000 s =
     (if DRIVER_WIDTH_part000 < length (trim (id_driver s))
      then take (DRIVER_WIDTH_part000 - 3) (trim (id_driver s)) @ asc ''...''
      else trim (id_driver s) @
           replicate (DRIVER_WIDTH_part000 - length (trim (id_driver s))) space) \<and>
   rowCar_part000 s =
     (if CAR_WIDTH_part000 < length (trim (car s))
      then take (CAR_WIDTH_part000 - 3) (trim (car s)) @ asc ''...''
      else trim (car s) @ replicate (CAR_WIDTH_part000 - length (trim (car s))) space) \<and>
   rowPoints_part000 s =
     (if POINTS_WIDTH_part000 < length (toFixed1 (championshipPoints s))
      then take (POINTS_WIDTH_part000 - 3) (toFixed1 (championshipPoints s)) @ asc ''...''
      else toFixed1 (championshipPoints s) @
           replicate (POINTS_WIDTH_part000 - length (toFixed1 (championshipPoints s))) space) \<and>
   rowPos s =
     replicate (POS_WIDTH - length (numberToString (position s) @ asc ''.'')) space @
     numberToString (position s) @ asc ''.'' \<and>
   rowPos_part000 s =
     replicate (POS_WIDTH_part000 - length (numberToString (position s) @ asc ''.'')) space @
     numberToString (position s) @ asc ''.''"
proof -
  have a: "- 99 \<le> position s \<and> position s \<le> 999 \<longrightarrow>
      length (formatRow_part000 s) =
        POS_WIDTH_part000 + length (asc '' | '') + DRIVER_WIDTH_part000 + length (asc '' | '') +
        CAR_WIDTH_part000 + length (asc '' | '') + POINTS_WIDTH_part000"
    by (simp add: formatRow_part000_def length_rowPos_part000 length_rowDriver_part000
        length_rowCar_part000 length_rowPoints_part000)
  have b: "- 99 \<le> position s \<and> position s \<le> 999 \<and>
    - 99 \<le> championshipPoints s \<and> championshipPoints s \<le> 999 \<longrightarrow>
      length (formatRow s) =
        POS_WIDTH + length (asc '' '') + DRIVER_WIDTH + length (asc '' | '') +
        CAR_WIDTH + length (asc '' | '') + POINTS_WIDTH"
    by (simp add: formatRow_def length_rowPos length_rowDriver length_rowCar length_rowPoints)
  show ?thesis
    by (intro conjI a b length_rowDriver length_rowCar length_rowDriver_part000
        length_rowCar_part000 length_rowPoints_part000 rowDriver_cases rowCar_cases
        rowDriver_part000_cases rowCar_part000_cases rowPoints_part000_cases
        rowPos_padded rowPos_part000_padded)
qed

theorem row_width_witness:
  "- 99 \<le> position alice1 \<and> position alice1 \<le> 999 \<and>
   - 99 \<le> championshipPoints alice1 \<and> championshipPoints alice1 \<le> 999 \<and>
   length (formatRow_part000 alice1) = 74 \<and> length (formatRow alice1) = 42"
proof -
  have h: "- 99 \<le> position alice1 \<and> position alice1 \<le> 999 \<and>
      - 99 \<le> championshipPoints alice1 \<and> championshipPoints alice1 \<le> 999"
    by code_simp
  have w: "POS_WIDTH_part000 + length (asc '' | '') + DRIVER_WIDTH_part000 + length (asc '' | '') +
        CAR_WIDTH_part000 + length (asc '' | '') + POINTS_WIDTH_part000 = 74"
    "POS_WIDTH + length (asc '' '') + DRIVER_WIDTH + length (asc '' | '') +
        CAR_WIDTH + length (asc '' | '') + POINTS_WIDTH = 42"
    by (simp_all add: length_asc POS_WIDTH_def DRIVER_WIDTH_def CAR_WIDTH_def POINTS_WIDTH_def
        POS_WIDTH_part000_def DRIVER_WIDTH_part000_def CAR_WIDTH_part000_def
        POINTS_WIDTH_part000_def)
  from row_width [of alice1] h show ?thesis
    by (simp only: w)
qed

text \<open>
  C2 as stated fails: with position \<open>1000\<close> the row of either file is one code
  unit longer than the columns and separators, and so is the row of
  \<^verbatim>\<open>merge-results.ts\<close> with \<open>1000\<close> championship points.
\<close>

theorem row_width_counterexample:
  "length (formatRow (alice1\<lparr>position := 1000\<rparr>)) \<noteq>
     POS_WIDTH + length (asc '' '') + DRIVER_WIDTH + length (asc '' | '') +
     CAR_WIDTH + length (asc '' | '') + POINTS_WIDTH \<and>
   length (formatRow_part000 (alice1\<lparr>position := 1000\<rparr>)) \<noteq>
     POS_WIDTH_part000 + length (asc '' | '') + DRIVER_WIDTH_part000 + length (asc '' | '') +
     CAR_WIDTH_part000 + length (asc '' | '') + POINTS_WIDTH_part000 \<and>
   length (formatRow (alice1\<lparr>championshipPoints := 1000\<rparr>)) \<noteq>
     POS_WIDTH + length (asc '' '') + DRIVER_WIDTH + length (asc '' | '') +
     CAR_WIDTH + length (asc '' | '') + POINTS_WIDTH"
  by code_simp


end
